theory Spec2Isabelle
  imports Complex_Main
begin

section \<open>Numbers, series and data frames\<close>

text \<open>
  The script \<^verbatim>\<open>portfolio-theory.py\<close> computes with IEEE doubles held in pandas
  Series and DataFrames. The embedding idealises a finite double as a \<open>real\<close>
  (rounding is not modelled) and writes a value that is not finite (NaN, or an
  infinity from a division by zero) as \<open>None\<close>. numpy and pandas never raise on such
  a value; it propagates through the arithmetic that follows, which the lifted
  operations below do.

  A Series is the list of its values in index order. The asset returns, the portfolio
  returns and the benchmark returns are taken over the same month index, so pandas'
  alignment on labels is positional here.
\<close>

type_synonym series = "real list"

datatype py_error = KeyError | NameError | ValueError | OptimizationError | IOError

definition fdiv :: "real \<Rightarrow> real \<Rightarrow> real option" where
  "fdiv a b = (if b = 0 then None else Some (a / b))"

definition lift2 :: "(real \<Rightarrow> real \<Rightarrow> real) \<Rightarrow> real option \<Rightarrow> real option \<Rightarrow> real option" where
  "lift2 f a b = (case a of None \<Rightarrow> None | Some x \<Rightarrow> (case b of None \<Rightarrow> None | Some y \<Rightarrow> Some (f x y)))"

definition odiv :: "real option \<Rightarrow> real option \<Rightarrow> real option" where
  "odiv a b = (case a of None \<Rightarrow> None | Some x \<Rightarrow> (case b of None \<Rightarrow> None | Some y \<Rightarrow> fdiv x y))"

text \<open>\<^verbatim>\<open>Series.mean()\<close>: the mean of an empty Series is NaN.\<close>

definition series_mean :: "series \<Rightarrow> real option" where
  "series_mean xs = fdiv (sum_list xs) (real (length xs))"

text \<open>
  \<^verbatim>\<open>np.var(s)\<close> and \<^verbatim>\<open>np.std(s)\<close> on a Series call \<^verbatim>\<open>s.var(ddof=0)\<close> and
  \<^verbatim>\<open>s.std(ddof=0)\<close>: the sum of squared deviations is divided by the number of
  observations.
\<close>

definition np_var :: "series \<Rightarrow> real option" where
  "np_var xs = (case series_mean xs of None \<Rightarrow> None
     | Some avg \<Rightarrow> fdiv (\<Sum>x\<leftarrow>xs. (x - avg)\<^sup>2) (real (length xs)))"

definition np_std :: "series \<Rightarrow> real option" where
  "np_std xs = map_option sqrt (np_var xs)"

text \<open>
  \<^verbatim>\<open>np.cov(x, y)[0, 1]\<close> with numpy's defaults (\<^verbatim>\<open>bias=False\<close>, \<^verbatim>\<open>ddof=1\<close>): the sum of
  the products of deviations is divided by the number of observations minus one;
  with fewer than two observations the result is NaN. The script applies it to two
  columns of one frame, which have the same length.
\<close>

definition np_cov :: "series \<Rightarrow> series \<Rightarrow> real option" where
  "np_cov xs ys = (case series_mean xs of None \<Rightarrow> None
     | Some ax \<Rightarrow> (case series_mean ys of None \<Rightarrow> None
     | Some ay \<Rightarrow> fdiv (\<Sum>(x, y)\<leftarrow>zip xs ys. (x - ax) * (y - ay)) (real (length xs) - 1)))"

text \<open>\<^verbatim>\<open>Series.cumprod()\<close> and \<^verbatim>\<open>Series.cummax()\<close>.\<close>

fun cumprod_from :: "real \<Rightarrow> series \<Rightarrow> series" where
  "cumprod_from a [] = []"
| "cumprod_from a (x # xs) = (a * x) # cumprod_from (a * x) xs"

definition cumprod :: "series \<Rightarrow> series" where
  "cumprod xs = cumprod_from 1 xs"

fun cummax_from :: "real \<Rightarrow> series \<Rightarrow> series" where
  "cummax_from m [] = []"
| "cummax_from m (x # xs) = max m x # cummax_from (max m x) xs"

fun cummax :: "series \<Rightarrow> series" where
  "cummax [] = []"
| "cummax (x # xs) = x # cummax_from x xs"

text \<open>\<^verbatim>\<open>Series.min()\<close> skips NaN entries; it is NaN when nothing is left.\<close>

fun dropna :: "real option list \<Rightarrow> real list" where
  "dropna [] = []"
| "dropna (None # xs) = dropna xs"
| "dropna (Some x # xs) = x # dropna xs"

definition series_min :: "real option list \<Rightarrow> real option" where
  "series_min xs = (case dropna xs of [] \<Rightarrow> None | y # ys \<Rightarrow> Some (fold min ys y))"

text \<open>
  A DataFrame: the number of rows of its index and its columns in order, each a label
  with a Series of that many values (\<open>frame_ok\<close>, which pandas maintains for every
  frame; the reads \<open>c ! t\<close> below stay inside the column then).
\<close>

record frame =
  nrows :: nat
  columns :: "(string \<times> series) list"


text \<open>\<^verbatim>\<open>df[[k1, ..., km]]\<close>: the listed columns in the listed order, KeyError when one is missing.\<close>

fun getitem_columns :: "(string \<times> series) list \<Rightarrow> string list \<Rightarrow> py_error + (string \<times> series) list" where
  "getitem_columns cols [] = Inr []"
| "getitem_columns cols (k # ks) =
     (case map_of cols k of None \<Rightarrow> Inl KeyError
      | Some c \<Rightarrow> (case getitem_columns cols ks of Inl e \<Rightarrow> Inl e | Inr cs \<Rightarrow> Inr ((k, c) # cs)))"

definition getitem_list :: "frame \<Rightarrow> string list \<Rightarrow> py_error + frame" where
  "getitem_list fr ks = (case getitem_columns (columns fr) ks of Inl e \<Rightarrow> Inl e
     | Inr cs \<Rightarrow> Inr \<lparr>nrows = nrows fr, columns = cs\<rparr>)"

text \<open>\<^verbatim>\<open>df[k]\<close>: one column.\<close>

definition getitem :: "frame \<Rightarrow> string \<Rightarrow> py_error + series" where
  "getitem fr k = (case map_of (columns fr) k of None \<Rightarrow> Inl KeyError | Some c \<Rightarrow> Inr c)"

text \<open>\<^verbatim>\<open>df[k] = s\<close>: replaces the column \<open>k\<close> where it exists and appends it otherwise.\<close>

fun setitem_columns :: "(string \<times> series) list \<Rightarrow> string \<Rightarrow> series \<Rightarrow> (string \<times> series) list" where
  "setitem_columns [] k s = [(k, s)]"
| "setitem_columns ((k', c) # cols) k s =
     (if k' = k then (k, s) # cols else (k', c) # setitem_columns cols k s)"

definition setitem :: "frame \<Rightarrow> string \<Rightarrow> series \<Rightarrow> frame" where
  "setitem fr k s = fr\<lparr>columns := setitem_columns (columns fr) k s\<rparr>"

text \<open>
  \<^verbatim>\<open>df.dot(ws)\<close> with a list \<open>ws\<close>: row \<open>t\<close> of the result is the sum over the columns of
  the column's value at \<open>t\<close> times its weight; ValueError when the list's length is not
  the number of columns.
\<close>

definition frame_dot :: "frame \<Rightarrow> real list \<Rightarrow> py_error + series" where
  "frame_dot fr ws =
     (if length ws \<noteq> length (columns fr) then Inl ValueError
      else Inr (map (\<lambda>t. \<Sum>(c, w)\<leftarrow>zip (map snd (columns fr)) ws. c ! t * w) [0..<nrows fr]))"

section \<open>The analytics of the MVO tab\<close>

text \<open>
  Lines 225 to 229 of the script: the monthly portfolio returns, their cumulative
  product, its running maximum, the drawdown series and its minimum.
  \<open>cleaned_weights\<close> is the ordered dictionary of the optimizer, ticker to weight.
\<close>

record drawdown_analysis =
  portfolio_returns :: series
  cumulative_returns :: series
  rolling_max :: series
  drawdowns :: "real option list"
  max_drawdown :: "real option"

definition mvo_drawdown :: "frame \<Rightarrow> (string \<times> real) list \<Rightarrow> py_error + drawdown_analysis" where
  "mvo_drawdown returns cleaned_weights =
     (case getitem_list returns (map fst cleaned_weights) of Inl e \<Rightarrow> Inl e
      | Inr selected \<Rightarrow>
     (case frame_dot selected (map snd cleaned_weights) of Inl e \<Rightarrow> Inl e
      | Inr p \<Rightarrow>
        (let cumulative = cumprod (map (\<lambda>r. 1 + r) p);
             rolling = cummax cumulative;
             dd = map2 (\<lambda>c m. fdiv (c - m) m) cumulative rolling
         in Inr \<lparr>portfolio_returns = p, cumulative_returns = cumulative,
                 rolling_max = rolling, drawdowns = dd, max_drawdown = series_min dd\<rparr>)))"

text \<open>
  Lines 259 to 286: the benchmark-relative metrics. The two assignments into
  \<open>returns\<close> add (or overwrite) the columns \<^verbatim>\<open>Portfolio\<close> and \<^verbatim>\<open>MSCI USA\<close>; the
  metrics read these columns back.
\<close>

record benchmark_metrics =
  active_risk :: "real option"
  sortino_ratio :: "real option"
  beta :: "real option"
  alpha :: "real option"
  information_ratio :: "real option"

definition mvo_benchmark :: "frame \<Rightarrow> series \<Rightarrow> series \<Rightarrow> real \<Rightarrow> py_error + (frame \<times> benchmark_metrics)" where
  "mvo_benchmark returns p benchmark_returns rf =
     (let active_returns = map2 (-) p benchmark_returns;
          risk = map_option (\<lambda>s. s * sqrt 12) (np_std active_returns);
          returns1 = setitem returns ''Portfolio'' p;
          returns2 = setitem returns1 ''MSCI USA'' benchmark_returns;
          mrfr = rf / 12
      in (case getitem returns2 ''Portfolio'' of Inl e \<Rightarrow> Inl e
          | Inr pcol \<Rightarrow>
         (case getitem returns2 ''MSCI USA'' of Inl e \<Rightarrow> Inl e
          | Inr bcol \<Rightarrow>
            (let excess_returns = map (\<lambda>r. r - mrfr) pcol;
                 downside_returns = filter (\<lambda>e. e < 0) excess_returns;
                 downside_risk = map_option (\<lambda>s. sqrt s * sqrt 12)
                                   (series_mean (map (\<lambda>e. e\<^sup>2) downside_returns));
                 sortino = odiv (map_option (\<lambda>m. m * 12) (series_mean excess_returns)) downside_risk;
                 covariance = np_cov pcol bcol;
                 benchmark_variance = np_var bcol;
                 b = odiv covariance benchmark_variance;
                 portfolio_return = map_option (\<lambda>m. m * 12) (series_mean pcol);
                 benchmark_return = map_option (\<lambda>m. m * 12) (series_mean bcol);
                 a = lift2 (-) portfolio_return
                       (map_option (\<lambda>x. rf + x)
                          (lift2 (*) b (map_option (\<lambda>r. r - rf) benchmark_return)));
                 ir = odiv (lift2 (-) portfolio_return benchmark_return) risk
             in Inr (returns2,
                     \<lparr>active_risk = risk, sortino_ratio = sortino, beta = b, alpha = a,
                      information_ratio = ir\<rparr>)))))"

section \<open>The analytics of the Black-Litterman tab\<close>

text \<open>
  Lines 446 to 450 and 480 to 507 of the script: the second copy of the analytics, in
  the Black-Litterman tab, translated from its own lines.
\<close>

definition bl_drawdown :: "frame \<Rightarrow> (string \<times> real) list \<Rightarrow> py_error + drawdown_analysis" where
  "bl_drawdown returns cleaned_weights =
     (case getitem_list returns (map fst cleaned_weights) of Inl e \<Rightarrow> Inl e
      | Inr selected \<Rightarrow>
     (case frame_dot selected (map snd cleaned_weights) of Inl e \<Rightarrow> Inl e
      | Inr p \<Rightarrow>
        (let cumulative = cumprod (map (\<lambda>r. 1 + r) p);
             rolling = cummax cumulative;
             dd = map2 (\<lambda>c m. fdiv (c - m) m) cumulative rolling
         in Inr \<lparr>portfolio_returns = p, cumulative_returns = cumulative,
                 rolling_max = rolling, drawdowns = dd, max_drawdown = series_min dd\<rparr>)))"

definition bl_benchmark :: "frame \<Rightarrow> series \<Rightarrow> series \<Rightarrow> real \<Rightarrow> py_error + (frame \<times> benchmark_metrics)" where
  "bl_benchmark returns p benchmark_returns rf =
     (let active_returns = map2 (-) p benchmark_returns;
          risk = map_option (\<lambda>s. s * sqrt 12) (np_std active_returns);
          returns1 = setitem returns ''Portfolio'' p;
          returns2 = setitem returns1 ''MSCI USA'' benchmark_returns;
          mrfr = rf / 12
      in (case getitem returns2 ''Portfolio'' of Inl e \<Rightarrow> Inl e
          | Inr pcol \<Rightarrow>
         (case getitem returns2 ''MSCI USA'' of Inl e \<Rightarrow> Inl e
          | Inr bcol \<Rightarrow>
            (let excess_returns = map (\<lambda>r. r - mrfr) pcol;
                 downside_returns = filter (\<lambda>e. e < 0) excess_returns;
                 downside_risk = map_option (\<lambda>s. sqrt s * sqrt 12)
                                   (series_mean (map (\<lambda>e. e\<^sup>2) downside_returns));
                 sortino = odiv (map_option (\<lambda>m. m * 12) (series_mean excess_returns)) downside_risk;
                 covariance = np_cov pcol bcol;
                 benchmark_variance = np_var bcol;
                 b = odiv covariance benchmark_variance;
                 portfolio_return = map_option (\<lambda>m. m * 12) (series_mean pcol);
                 benchmark_return = map_option (\<lambda>m. m * 12) (series_mean bcol);
                 a = lift2 (-) portfolio_return
                       (map_option (\<lambda>x. rf + x)
                          (lift2 (*) b (map_option (\<lambda>r. r - rf) benchmark_return)));
                 ir = odiv (lift2 (-) portfolio_return benchmark_return) risk
             in Inr (returns2,
                     \<lparr>active_risk = risk, sortino_ratio = sortino, beta = b, alpha = a,
                      information_ratio = ir\<rparr>)))))"

section \<open>The optimization library\<close>

text \<open>
  The estimators, the solvers and the Black-Litterman model are those of the pypfopt
  package; the script only calls them. They are parameters of the embedding: a value
  of the record \<open>pypfopt\<close> gives one implementation of each entry point the script
  uses, an entry point that can raise returning \<open>Inl\<close>.

  An \<^verbatim>\<open>EfficientFrontier\<close> object is the triple of its constructor's arguments. The
  \<^verbatim>\<open>pi\<close> argument of \<^verbatim>\<open>BlackLittermanModel\<close> is either a vector of prior returns or
  the library's keyword \<^verbatim>\<open>market\<close> for a prior it derives from market capitalisations.
\<close>

type_synonym weights = "(string \<times> real) list"

record efficient_frontier =
  ef_expected_returns :: "(string \<times> real) list"
  ef_cov_matrix :: "real list list"
  ef_weight_bounds :: "real \<times> real"

datatype prior = Prior_vector "(string \<times> real) list" | Prior_market

record pypfopt =
  mean_historical_return :: "frame \<Rightarrow> nat \<Rightarrow> bool \<Rightarrow> (string \<times> real) list"
  ledoit_wolf :: "frame \<Rightarrow> nat \<Rightarrow> real list list"
  max_sharpe :: "efficient_frontier \<Rightarrow> real \<Rightarrow> py_error + weights"
  efficient_return :: "efficient_frontier \<Rightarrow> real \<Rightarrow> py_error + weights"
  min_volatility :: "efficient_frontier \<Rightarrow> py_error + weights"
  clean_weights :: "weights \<Rightarrow> weights"
  portfolio_performance :: "efficient_frontier \<Rightarrow> weights \<Rightarrow> real \<Rightarrow> py_error + (real \<times> real \<times> real)"
  plot_efficient_frontier :: "efficient_frontier \<Rightarrow> py_error + unit"
  bl_returns :: "real list list \<Rightarrow> (string \<times> real) list \<Rightarrow> prior \<Rightarrow> py_error + (string \<times> real) list"

section \<open>Estimation (lines 83 to 88)\<close>

text \<open>
  \<^verbatim>\<open>np.diag\<close> of a matrix and \<^verbatim>\<open>x ** 0.5\<close>, which is NaN on a negative number. The
  library returns a covariance matrix with a row and a column per asset, so that the
  diagonal has an entry for each index label of the expected returns.
\<close>

fun diag :: "real list list \<Rightarrow> real list" where
  "diag [] = []"
| "diag ([] # rs) = []"
| "diag ((x # xs) # rs) = x # diag (map tl rs)"

definition np_sqrt :: "real \<Rightarrow> real option" where
  "np_sqrt x = (if x < 0 then None else Some (sqrt x))"

record estimates =
  expected_returns :: "(string \<times> real) list"
  cov_matrix :: "real list list"
  asset_std_devs :: "(string \<times> real option) list"

definition estimation :: "pypfopt \<Rightarrow> frame \<Rightarrow> estimates" where
  "estimation lib data =
     (let mu = mean_historical_return lib data 12 True;
          cov = ledoit_wolf lib data 12
      in \<lparr>expected_returns = mu, cov_matrix = cov,
          asset_std_devs = zip (map fst mu) (map np_sqrt (diag cov))\<rparr>)"

section \<open>The page and the script's variables\<close>

text \<open>
  What a tab shows is the list of the elements written to it, in order. The numbers
  in a formatted line are kept as numbers.
\<close>

datatype label = Max_Sharpe_label | Efficient_Return_label real | Minimum_Volatility_label

datatype element =
    St_error string
  | St_write string
  | St_subheader string
  | St_weights weights
  | St_metric string "real option"
  | St_pyplot string
  | St_dataframe "(string \<times> real) list"
  | St_table "(string \<times> real \<times> real option) list"



text \<open>The sidebar's widgets (lines 107 to 121).\<close>

record sidebar =
  optimization_method :: string
  lower_bound :: real
  upper_bound :: real
  rfr :: real
  target_return :: real

text \<open>
  The variables of the script that one tab can leave to the next, \<open>None\<close> while
  unbound, with the elements shown so far in the current tab. The three performance
  figures are bound together by one tuple assignment.
\<close>

record env =
  returns :: frame
  optimization_label :: "label option"
  cleaned_weights :: "weights option"
  performance :: "(real \<times> real \<times> real) option"
  shown :: "element list"

definition display :: "element list \<Rightarrow> env \<Rightarrow> env" where
  "display es s = s\<lparr>shown := shown s @ es\<rparr>"

text \<open>The handler of both \<^verbatim>\<open>try\<close> blocks (lines 294 to 296 and 516 to 518).\<close>

definition adjust_messages :: "element list" where
  "adjust_messages =
     [St_write ''Please adjust the input parameters'',
      St_write ''Please ensure target return is lower than maximum possible return'']"

section \<open>The MVO tab (lines 124 to 296)\<close>

text \<open>Lines 132 to 142: the solver chosen by the select box, with its label.\<close>

definition mvo_solve :: "pypfopt \<Rightarrow> efficient_frontier \<Rightarrow> sidebar \<Rightarrow> py_error + (weights \<times> label)" where
  "mvo_solve lib ef sb =
     (if optimization_method sb = ''Max Sharpe'' then
        (case max_sharpe lib ef (rfr sb) of Inl e \<Rightarrow> Inl e
         | Inr w \<Rightarrow> Inr (w, Max_Sharpe_label))
      else if optimization_method sb = ''Efficient Return'' then
        (case efficient_return lib ef (target_return sb) of Inl e \<Rightarrow> Inl e
         | Inr w \<Rightarrow> Inr (w, Efficient_Return_label (target_return sb * 100)))
      else
        (case min_volatility lib ef of Inl e \<Rightarrow> Inl e
         | Inr w \<Rightarrow> Inr (w, Minimum_Volatility_label)))"

text \<open>
  Lines 126 to 146. A raised exception leaves the block with the variables bound and the
  elements shown up to that point.
\<close>

definition mvo_optimize :: "pypfopt \<Rightarrow> estimates \<Rightarrow> sidebar \<Rightarrow> env \<Rightarrow> (py_error \<times> env) + env" where
  "mvo_optimize lib est sb s =
     (if lower_bound sb \<ge> upper_bound sb then
        Inr (display [St_error ''Lower bound must be less than upper bound''] s)
      else
        (let ef = \<lparr>ef_expected_returns = expected_returns est, ef_cov_matrix = cov_matrix est,
                   ef_weight_bounds = (lower_bound sb, upper_bound sb)\<rparr>
         in (case mvo_solve lib ef sb of Inl e \<Rightarrow> Inl (e, s)
             | Inr (w, l) \<Rightarrow>
               (let s1 = s\<lparr>optimization_label := Some l, cleaned_weights := Some (clean_weights lib w)\<rparr>
                in (case portfolio_performance lib ef w (rfr sb) of Inl e \<Rightarrow> Inl (e, s1)
                    | Inr perf \<Rightarrow> Inr (s1\<lparr>performance := Some perf\<rparr>))))))"

text \<open>
  Lines 152 to 210: the frontier plot, the weights and the pie chart. Reading a variable
  that no assignment has bound raises NameError; \<^verbatim>\<open>ax.pie\<close> raises ValueError on a
  negative wedge, and when every wedge is zero: it divides the wedges by their sum, and
  the angles of the wedges are then NaN.
\<close>

definition mvo_plots :: "pypfopt \<Rightarrow> estimates \<Rightarrow> sidebar \<Rightarrow> env \<Rightarrow> (py_error \<times> env) + env" where
  "mvo_plots lib est sb s =
     (let efplot = \<lparr>ef_expected_returns = expected_returns est, ef_cov_matrix = cov_matrix est,
                    ef_weight_bounds = (lower_bound sb, upper_bound sb)\<rparr>
      in (case plot_efficient_frontier lib efplot of Inl e \<Rightarrow> Inl (e, s)
          | Inr u \<Rightarrow>
         (case performance s of None \<Rightarrow> Inl (NameError, s)
          | Some perf \<Rightarrow>
         (case optimization_label s of None \<Rightarrow> Inl (NameError, s)
          | Some l \<Rightarrow>
            (let s1 = display [St_subheader ''Efficient Frontier'', St_pyplot ''Efficient Frontier'',
                               St_subheader ''Optimized Portfolio Weights''] s
             in (case cleaned_weights s1 of None \<Rightarrow> Inl (NameError, s1)
                 | Some cw \<Rightarrow>
                   (let s2 = display [St_weights cw] s1
                    in if list_ex (\<lambda>kw. snd kw < 0) cw \<or> (cw \<noteq> [] \<and> list_all (\<lambda>kw. snd kw = 0) cw)
                       then Inl (ValueError, s2)
                       else Inr (display [St_pyplot ''Optimized Portfolio Allocation''] s2))))))))"

text \<open>
  Lines 217 to 293: the performance figures, the drawdown and the benchmark-relative
  metrics. \<open>bmk\<close> is the outcome of lines 247 to 257, which download the benchmark
  sheet and turn it into monthly returns.
\<close>

definition mvo_analytics :: "py_error + series \<Rightarrow> real \<Rightarrow> env \<Rightarrow> (py_error \<times> env) + env" where
  "mvo_analytics bmk rf s =
     (let s1 = display [St_subheader ''Portfolio Performance''] s
      in (case performance s1 of None \<Rightarrow> Inl (NameError, s1)
          | Some (expected_return, portfolio_volatility, sharpe_ratio) \<Rightarrow>
            (let s2 = display [St_metric ''Expected Annual Return'' (Some expected_return),
                               St_metric ''Annual Volatility (Risk)'' (Some portfolio_volatility),
                               St_metric ''Sharpe Ratio'' (Some sharpe_ratio),
                               St_subheader ''Additional Metrics and Drawdown Analysis''] s1
             in (case cleaned_weights s2 of None \<Rightarrow> Inl (NameError, s2)
                 | Some cw \<Rightarrow>
                (case mvo_drawdown (returns s2) cw of Inl e \<Rightarrow> Inl (e, s2)
                 | Inr d \<Rightarrow>
                   (let s3 = display [St_metric ''Maximum Drawdown'' (max_drawdown d),
                                      St_pyplot ''Portfolio Drawdown'',
                                      St_subheader ''Benchmark relative metrics''] s2
                    in (case bmk of Inl e \<Rightarrow> Inl (e, s3)
                        | Inr benchmark_returns \<Rightarrow>
                       (case mvo_benchmark (returns s3) (portfolio_returns d) benchmark_returns rf of
                          Inl e \<Rightarrow> Inl (e, s3)
                        | Inr (returns', m) \<Rightarrow>
                            Inr (display [St_metric ''Active Risk (Tracking Error)'' (active_risk m),
                                          St_metric ''Sortino Ratio'' (sortino_ratio m),
                                          St_metric ''Beta'' (beta m),
                                          St_metric ''Alpha'' (alpha m),
                                          St_metric ''Information Ratio'' (information_ratio m)]
                                   (s3\<lparr>returns := returns'\<rparr>))))))))))"

text \<open>The \<^verbatim>\<open>try\<close> block with its bare \<^verbatim>\<open>except\<close>.\<close>

definition mvo_tab :: "pypfopt \<Rightarrow> estimates \<Rightarrow> py_error + series \<Rightarrow> sidebar \<Rightarrow> env \<Rightarrow> env" where
  "mvo_tab lib est bmk sb s =
     (case mvo_optimize lib est sb s of Inl (e, s') \<Rightarrow> display adjust_messages s'
      | Inr s1 \<Rightarrow>
     (case mvo_plots lib est sb s1 of Inl (e, s') \<Rightarrow> display adjust_messages s'
      | Inr s2 \<Rightarrow>
     (case mvo_analytics bmk (rfr sb) s2 of Inl (e, s') \<Rightarrow> display adjust_messages s'
      | Inr s3 \<Rightarrow> s3)))"

section \<open>The Black-Litterman tab (lines 299 to 518)\<close>

text \<open>
  Lines 301 to 323: a view is entered by ticking the asset's checkbox and moving its
  slider; \<open>None\<close> is an unticked checkbox. The dictionary is filled in this order.
\<close>

record views =
  quality_view :: "real option"
  value_view :: "real option"
  growth_view :: "real option"
  minvol_view :: "real option"

definition view_entry :: "string \<Rightarrow> real option \<Rightarrow> (string \<times> real) list" where
  "view_entry k v = (case v of None \<Rightarrow> [] | Some x \<Rightarrow> [(k, x)])"

definition viewdict :: "views \<Rightarrow> (string \<times> real) list" where
  "viewdict v =
     view_entry ''USA QUALITY'' (quality_view v) @
     view_entry ''USA LARGE VALUE'' (value_view v) @
     view_entry ''USA LARGE GROWTH'' (growth_view v) @
     view_entry ''USA MINIMUM VOLATILITY'' (minvol_view v)"

text \<open>
  Lines 327 to 329: the model is built from the covariance matrix, the views and, as
  its prior \<^verbatim>\<open>pi\<close>, the vector \<^verbatim>\<open>expected_returns\<close> of the estimation step.
\<close>

definition black_litterman :: "pypfopt \<Rightarrow> estimates \<Rightarrow> views \<Rightarrow> py_error + (string \<times> real) list" where
  "black_litterman lib est v =
     bl_returns lib (cov_matrix est) (viewdict v) (Prior_vector (expected_returns est))"

text \<open>Lines 353 to 363.\<close>

definition bl_solve :: "pypfopt \<Rightarrow> efficient_frontier \<Rightarrow> sidebar \<Rightarrow> py_error + (weights \<times> label)" where
  "bl_solve lib ef sb =
     (if optimization_method sb = ''Max Sharpe'' then
        (case max_sharpe lib ef (rfr sb) of Inl e \<Rightarrow> Inl e
         | Inr w \<Rightarrow> Inr (w, Max_Sharpe_label))
      else if optimization_method sb = ''Efficient Return'' then
        (case efficient_return lib ef (target_return sb) of Inl e \<Rightarrow> Inl e
         | Inr w \<Rightarrow> Inr (w, Efficient_Return_label (target_return sb * 100)))
      else
        (case min_volatility lib ef of Inl e \<Rightarrow> Inl e
         | Inr w \<Rightarrow> Inr (w, Minimum_Volatility_label)))"

text \<open>Lines 347 to 367, on the Black-Litterman returns \<open>rets\<close>.\<close>

definition bl_optimize :: "pypfopt \<Rightarrow> (string \<times> real) list \<Rightarrow> real list list \<Rightarrow> sidebar \<Rightarrow> env \<Rightarrow> (py_error \<times> env) + env" where
  "bl_optimize lib rets cov sb s =
     (if lower_bound sb \<ge> upper_bound sb then
        Inr (display [St_error ''Lower bound must be less than upper bound''] s)
      else
        (let ef = \<lparr>ef_expected_returns = rets, ef_cov_matrix = cov,
                   ef_weight_bounds = (lower_bound sb, upper_bound sb)\<rparr>
         in (case bl_solve lib ef sb of Inl e \<Rightarrow> Inl (e, s)
             | Inr (w, l) \<Rightarrow>
               (let s1 = s\<lparr>optimization_label := Some l, cleaned_weights := Some (clean_weights lib w)\<rparr>
                in (case portfolio_performance lib ef w (rfr sb) of Inl e \<Rightarrow> Inl (e, s1)
                    | Inr perf \<Rightarrow> Inr (s1\<lparr>performance := Some perf\<rparr>))))))"

text \<open>Lines 373 to 431.\<close>

definition bl_plots :: "pypfopt \<Rightarrow> (string \<times> real) list \<Rightarrow> real list list \<Rightarrow> sidebar \<Rightarrow> env \<Rightarrow> (py_error \<times> env) + env" where
  "bl_plots lib rets cov sb s =
     (let efplot = \<lparr>ef_expected_returns = rets, ef_cov_matrix = cov,
                    ef_weight_bounds = (lower_bound sb, upper_bound sb)\<rparr>
      in (case plot_efficient_frontier lib efplot of Inl e \<Rightarrow> Inl (e, s)
          | Inr u \<Rightarrow>
         (case performance s of None \<Rightarrow> Inl (NameError, s)
          | Some perf \<Rightarrow>
         (case optimization_label s of None \<Rightarrow> Inl (NameError, s)
          | Some l \<Rightarrow>
            (let s1 = display [St_subheader ''Efficient Frontier'', St_pyplot ''Efficient Frontier'',
                               St_subheader ''Optimized Portfolio Weights''] s
             in (case cleaned_weights s1 of None \<Rightarrow> Inl (NameError, s1)
                 | Some cw \<Rightarrow>
                   (let s2 = display [St_weights cw] s1
                    in if list_ex (\<lambda>kw. snd kw < 0) cw \<or> (cw \<noteq> [] \<and> list_all (\<lambda>kw. snd kw = 0) cw)
                       then Inl (ValueError, s2)
                       else Inr (display [St_pyplot ''Optimized Portfolio Allocation''] s2))))))))"

text \<open>Lines 438 to 514.\<close>

definition bl_analytics :: "py_error + series \<Rightarrow> real \<Rightarrow> env \<Rightarrow> (py_error \<times> env) + env" where
  "bl_analytics bmk rf s =
     (let s1 = display [St_subheader ''Portfolio Performance''] s
      in (case performance s1 of None \<Rightarrow> Inl (NameError, s1)
          | Some (expected_return, portfolio_volatility, sharpe_ratio) \<Rightarrow>
            (let s2 = display [St_metric ''Expected Annual Return'' (Some expected_return),
                               St_metric ''Annual Volatility (Risk)'' (Some portfolio_volatility),
                               St_metric ''Sharpe Ratio'' (Some sharpe_ratio),
                               St_subheader ''Additional Metrics and Drawdown Analysis''] s1
             in (case cleaned_weights s2 of None \<Rightarrow> Inl (NameError, s2)
                 | Some cw \<Rightarrow>
                (case bl_drawdown (returns s2) cw of Inl e \<Rightarrow> Inl (e, s2)
                 | Inr d \<Rightarrow>
                   (let s3 = display [St_metric ''Maximum Drawdown'' (max_drawdown d),
                                      St_pyplot ''Portfolio Drawdown'',
                                      St_subheader ''Benchmark relative metrics''] s2
                    in (case bmk of Inl e \<Rightarrow> Inl (e, s3)
                        | Inr benchmark_returns \<Rightarrow>
                       (case bl_benchmark (returns s3) (portfolio_returns d) benchmark_returns rf of
                          Inl e \<Rightarrow> Inl (e, s3)
                        | Inr (returns', m) \<Rightarrow>
                            Inr (display [St_metric ''Active Risk (Tracking Error)'' (active_risk m),
                                          St_metric ''Sortino Ratio'' (sortino_ratio m),
                                          St_metric ''Beta'' (beta m),
                                          St_metric ''Alpha'' (alpha m),
                                          St_metric ''Information Ratio'' (information_ratio m)]
                                   (s3\<lparr>returns := returns'\<rparr>))))))))))"

text \<open>
  The tab: the header, the model and its returns, which are computed outside the
  \<^verbatim>\<open>try\<close> block, so that an exception there ends the script, then the \<^verbatim>\<open>try\<close> block.
\<close>

definition bl_header :: "element list" where
  "bl_header =
     [St_subheader ''Black Litterman Implied Returns'',
      St_write ''Black Litterman essentially uses a weighted average between the prior estimate of returns and the views, where the weighting is determined by the confidence in the views'',
      St_write ''We can set absolute return views for one or multiple asset classes.'',
      St_write ''Incorporating these views moves the expected return assumptions away from the historical mean returns vector'']"

definition bl_try :: "pypfopt \<Rightarrow> (string \<times> real) list \<Rightarrow> real list list \<Rightarrow> py_error + series \<Rightarrow> sidebar \<Rightarrow> env \<Rightarrow> env" where
  "bl_try lib rets cov bmk sb s =
     (case bl_optimize lib rets cov sb s of Inl (e, s') \<Rightarrow> display adjust_messages s'
      | Inr s1 \<Rightarrow>
     (case bl_plots lib rets cov sb s1 of Inl (e, s') \<Rightarrow> display adjust_messages s'
      | Inr s2 \<Rightarrow>
     (case bl_analytics bmk (rfr sb) s2 of Inl (e, s') \<Rightarrow> display adjust_messages s'
      | Inr s3 \<Rightarrow> s3)))"

definition bl_tab :: "pypfopt \<Rightarrow> estimates \<Rightarrow> py_error + series \<Rightarrow> sidebar \<Rightarrow> views \<Rightarrow> env \<Rightarrow> (py_error \<times> env) + env" where
  "bl_tab lib est bmk sb v s =
     (let s1 = display bl_header s
      in (case black_litterman lib est v of Inl e \<Rightarrow> Inl (e, s1)
          | Inr rets \<Rightarrow> Inr (bl_try lib rets (cov_matrix est) bmk sb (display [St_dataframe rets] s1))))"

section \<open>The script\<close>

text \<open>
  One run of the script: every variable starts unbound, the estimation step runs in the
  first tab, then the MVO tab and the Black-Litterman tab run on the same sidebar
  values. \<open>data\<close> is the cleaned price sheet, \<open>returns0\<close> its monthly percentage
  changes (line 68), \<open>bmk1\<close> and \<open>bmk2\<close> the outcomes of the two benchmark downloads.
  The result is what the MVO tab shows and the outcome of the Black-Litterman tab.
\<close>

definition initial_env :: "frame \<Rightarrow> env" where
  "initial_env returns0 =
     \<lparr>returns = returns0, optimization_label = None, cleaned_weights = None,
      performance = None, shown = []\<rparr>"

definition script ::
  "pypfopt \<Rightarrow> frame \<Rightarrow> frame \<Rightarrow> py_error + series \<Rightarrow> py_error + series \<Rightarrow> sidebar \<Rightarrow> views
     \<Rightarrow> element list \<times> ((py_error \<times> env) + env)" where
  "script lib data returns0 bmk1 bmk2 sb v =
     (let est = estimation lib data;
          s1 = mvo_tab lib est bmk1 sb (initial_env returns0)
      in (shown s1, bl_tab lib est bmk2 sb v (s1\<lparr>shown := []\<rparr>)))"

section \<open>The library as the specification describes it\<close>

text \<open>
  The pypfopt package is not among the sources. Where a property of the script rests on
  what an entry point of the library computes, the entry point is described here in the
  words of the specification: the three constrained problems of the optimizer, the
  performance figures, the estimators of the expected returns and of the covariance
  matrix, and the Black-Litterman blend. A library meets a description when everything
  it returns satisfies it; an entry point may still raise.
\<close>

text \<open>
  Modelled from the spec: the expected return of a portfolio, the
  weighted sum of the expected returns of its assets (pypfopt's objective, absent from
  the sources). Weights and expected returns are in the same order of tickers.
\<close>

definition portfolio_return :: "(string \<times> real) list \<Rightarrow> weights \<Rightarrow> real" where
  "portfolio_return mu w = (\<Sum>i\<leftarrow>[0..<length w]. snd (w ! i) * snd (mu ! i))"

text \<open>
  Modelled from the spec: the variance of a portfolio, the quadratic form of
  the covariance matrix in the weights, whose square root is the total volatility
  (pypfopt's objective, absent from the sources).
\<close>

definition portfolio_variance :: "real list list \<Rightarrow> weights \<Rightarrow> real" where
  "portfolio_variance cov w =
     (\<Sum>i\<leftarrow>[0..<length w]. \<Sum>j\<leftarrow>[0..<length w]. snd (w ! i) * cov ! i ! j * snd (w ! j))"

text \<open>
  Modelled from the spec: the constraints of the optimizer, absent from
  the sources: a weight for each ticker of the expected returns, the weights summing to
  one, and every weight within the bounds of the frontier.
\<close>

definition feasible :: "efficient_frontier \<Rightarrow> weights \<Rightarrow> bool" where
  "feasible ef w \<longleftrightarrow>
     map fst w = map fst (ef_expected_returns ef) \<and>
     (\<Sum>x\<leftarrow>w. snd x) = 1 \<and>
     list_all (\<lambda>x. fst (ef_weight_bounds ef) \<le> snd x \<and> snd x \<le> snd (ef_weight_bounds ef)) w"

text \<open>
  Modelled from the spec: the Sharpe ratio of a portfolio, its expected
  return in excess of the risk-free rate over its total volatility (absent from the
  sources).
\<close>

definition sharpe_of :: "efficient_frontier \<Rightarrow> real \<Rightarrow> weights \<Rightarrow> real" where
  "sharpe_of ef rf w =
     (portfolio_return (ef_expected_returns ef) w - rf) / sqrt (portfolio_variance (ef_cov_matrix ef) w)"

text \<open>
  Modelled from the spec: the minimum-variance problem that pypfopt's
  \<^verbatim>\<open>min_volatility\<close> solves (absent from the sources): weights that meet the
  constraints and have the least variance among those that do.
\<close>

definition solves_min_volatility :: "efficient_frontier \<Rightarrow> weights \<Rightarrow> bool" where
  "solves_min_volatility ef w \<longleftrightarrow>
     feasible ef w \<and>
     (\<forall>w'. feasible ef w' \<longrightarrow>
        portfolio_variance (ef_cov_matrix ef) w \<le> portfolio_variance (ef_cov_matrix ef) w')"

text \<open>
  Modelled from the spec: the minimum-risk-at-target-return problem that
  pypfopt's \<^verbatim>\<open>efficient_return\<close> solves (absent from the sources): weights that meet
  the constraints and reach the target return, with the least variance among those
  that do.
\<close>

definition solves_efficient_return :: "efficient_frontier \<Rightarrow> real \<Rightarrow> weights \<Rightarrow> bool" where
  "solves_efficient_return ef target w \<longleftrightarrow>
     feasible ef w \<and> target \<le> portfolio_return (ef_expected_returns ef) w \<and>
     (\<forall>w'. feasible ef w' \<and> target \<le> portfolio_return (ef_expected_returns ef) w' \<longrightarrow>
        portfolio_variance (ef_cov_matrix ef) w \<le> portfolio_variance (ef_cov_matrix ef) w')"

text \<open>
  Modelled from the spec: the max-Sharpe problem that pypfopt's
  \<^verbatim>\<open>max_sharpe\<close> solves (absent from the sources): weights that meet the constraints
  and have the greatest Sharpe ratio for the given risk-free rate, among portfolios of
  positive variance.
\<close>

definition solves_max_sharpe :: "efficient_frontier \<Rightarrow> real \<Rightarrow> weights \<Rightarrow> bool" where
  "solves_max_sharpe ef rf w \<longleftrightarrow>
     feasible ef w \<and> 0 < portfolio_variance (ef_cov_matrix ef) w \<and>
     (\<forall>w'. feasible ef w' \<and> 0 < portfolio_variance (ef_cov_matrix ef) w' \<longrightarrow>
        sharpe_of ef rf w' \<le> sharpe_of ef rf w)"

text \<open>
  Modelled from the spec: what the three solvers of pypfopt's
  \<^verbatim>\<open>EfficientFrontier\<close> return (absent from the sources): whenever a solver returns
  weights, they solve its problem.
\<close>

definition solvers_spec :: "pypfopt \<Rightarrow> bool" where
  "solvers_spec lib \<longleftrightarrow>
     (\<forall>ef rf w. max_sharpe lib ef rf = Inr w \<longrightarrow> solves_max_sharpe ef rf w) \<and>
     (\<forall>ef target w. efficient_return lib ef target = Inr w \<longrightarrow> solves_efficient_return ef target w) \<and>
     (\<forall>ef w. min_volatility lib ef = Inr w \<longrightarrow> solves_min_volatility ef w)"

text \<open>
  Modelled from the spec: what pypfopt's \<^verbatim>\<open>portfolio_performance\<close> returns
  (absent from the sources): the expected return of the weights, their total volatility,
  and the Sharpe ratio, the return in excess of the risk-free rate over that
  volatility.
\<close>

definition performance_spec :: "pypfopt \<Rightarrow> bool" where
  "performance_spec lib \<longleftrightarrow>
     (\<forall>ef w rf er vol sr. portfolio_performance lib ef w rf = Inr (er, vol, sr) \<longrightarrow>
        er = portfolio_return (ef_expected_returns ef) w \<and>
        vol = sqrt (portfolio_variance (ef_cov_matrix ef) w) \<and>
        (vol \<noteq> 0 \<longrightarrow> sr = (er - rf) / vol))"












text \<open>
  Modelled from the spec: the Black-Litterman blend of a prior return
  vector with absolute views (pypfopt's \<^verbatim>\<open>BlackLittermanModel.bl_returns\<close>, absent
  from the sources): the Bayesian weighted average of prior and views, in the form
  prior plus \<open>tau\<close> times the covariances with the viewed assets times \<open>y\<close>, where
  \<open>y\<close> solves the views' equations: \<open>tau\<close> times the covariance among the viewed
  assets plus the views' uncertainty \<open>omega\<close>, applied to \<open>y\<close>, is the view minus the
  prior. \<open>a\<close> gives the place of each viewed asset among the tickers; \<open>tau\<close> and
  \<open>omega\<close>, the confidence in the prior and in the views, are positive.
\<close>

definition bl_posterior ::
  "real list list \<Rightarrow> (string \<times> real) list \<Rightarrow> (string \<times> real) list \<Rightarrow> (string \<times> real) list \<Rightarrow> bool" where
  "bl_posterior cov vs pri post \<longleftrightarrow>
     (\<exists>tau omega y a.
        0 < tau \<and> length omega = length vs \<and> list_all (\<lambda>x. 0 < x) omega \<and>
        length y = length vs \<and> length a = length vs \<and>
        (\<forall>i<length vs.
           a ! i < length pri \<and> fst (pri ! (a ! i)) = fst (vs ! i) \<and>
           (\<Sum>j\<leftarrow>[0..<length vs]. tau * cov ! (a ! i) ! (a ! j) * y ! j) + omega ! i * y ! i
             = snd (vs ! i) - snd (pri ! (a ! i))) \<and>
        post = map (\<lambda>r. (fst (pri ! r),
                          snd (pri ! r) + (\<Sum>j\<leftarrow>[0..<length vs]. tau * cov ! r ! (a ! j) * y ! j)))
                 [0..<length pri])"

text \<open>
  Modelled from the spec: what pypfopt's Black-Litterman model returns
  for a prior given as a vector (absent from the sources): whenever it returns, the
  blend of that prior and the views.
\<close>

definition black_litterman_spec :: "pypfopt \<Rightarrow> bool" where
  "black_litterman_spec lib \<longleftrightarrow>
     (\<forall>cov vs pri post. bl_returns lib cov vs (Prior_vector pri) = Inr post \<longrightarrow>
        bl_posterior cov vs pri post)"

text \<open>
  Modelled from the spec: a market-implied prior, the returns that make
  the market portfolio optimal (absent from the sources): a positive risk aversion times
  the covariance matrix times market weights, which are non-negative and sum to one,
  plus a non-negative risk-free rate.
\<close>

definition market_implied :: "real list list \<Rightarrow> (string \<times> real) list \<Rightarrow> bool" where
  "market_implied cov pri \<longleftrightarrow>
     (\<exists>delta w rf.
        0 < delta \<and> 0 \<le> rf \<and> length w = length pri \<and> list_all (\<lambda>x. 0 \<le> x) w \<and> sum_list w = 1 \<and>
        map snd pri
          = map (\<lambda>i. delta * (\<Sum>j\<leftarrow>[0..<length w]. cov ! i ! j * w ! j) + rf) [0..<length pri])"


section \<open>The metrics as the specification states them\<close>

text \<open>
  The specification speaks of the return of an asset in a month, of sums over the
  months and of minima over time. The definitions of this section follow its words,
  with a series as a function of the month \<open>t < n\<close>; the theorems below compare them
  with what the script computes.

  \<open>asset_return fr k t\<close> is the entry of the return matrix for ticker \<open>k\<close> in month
  \<open>t\<close>, and \<open>weighted_return fr cw t\<close> the return matrix dotted with the weights
  \<open>cw\<close> in month \<open>t\<close>. \<open>has_columns fr cw\<close> says that every ticker of \<open>cw\<close> is a
  column of \<open>fr\<close>.
\<close>

definition asset_return :: "frame \<Rightarrow> string \<Rightarrow> nat \<Rightarrow> real" where
  "asset_return fr k t = (case map_of (columns fr) k of None \<Rightarrow> 0 | Some c \<Rightarrow> c ! t)"

definition weighted_return :: "frame \<Rightarrow> (string \<times> real) list \<Rightarrow> nat \<Rightarrow> real" where
  "weighted_return fr cw t = (\<Sum>(k, w)\<leftarrow>cw. asset_return fr k t * w)"

definition has_columns :: "frame \<Rightarrow> (string \<times> real) list \<Rightarrow> bool" where
  "has_columns fr cw = list_all (\<lambda>kw. map_of (columns fr) (fst kw) \<noteq> None) cw"

text \<open>
  The cumulative product \<open>C\<^sub>t\<close> of one plus the return, its running maximum \<open>M\<^sub>t\<close>,
  and the least value of \<open>(C\<^sub>t - M\<^sub>t) / M\<^sub>t\<close> over the months.
\<close>

definition spec_cumulative :: "(nat \<Rightarrow> real) \<Rightarrow> nat \<Rightarrow> real" where
  "spec_cumulative p t = (\<Prod>i\<le>t. 1 + p i)"

definition spec_running_max :: "(nat \<Rightarrow> real) \<Rightarrow> nat \<Rightarrow> real" where
  "spec_running_max p t = Max (spec_cumulative p ` {..t})"

definition spec_max_drawdown :: "(nat \<Rightarrow> real) \<Rightarrow> nat \<Rightarrow> real" where
  "spec_max_drawdown p n =
     Min ((\<lambda>t. (spec_cumulative p t - spec_running_max p t) / spec_running_max p t) ` {..<n})"

text \<open>
  The mean and the standard deviation of a series (the sum of squared deviations over
  the number of months), and the tracking error: the standard deviation of the
  difference of two series, times the square root of twelve.
\<close>

definition spec_mean :: "(nat \<Rightarrow> real) \<Rightarrow> nat \<Rightarrow> real" where
  "spec_mean f n = (\<Sum>t<n. f t) / real n"

definition spec_std :: "(nat \<Rightarrow> real) \<Rightarrow> nat \<Rightarrow> real" where
  "spec_std f n = sqrt ((\<Sum>t<n. (f t - spec_mean f n)\<^sup>2) / real n)"

definition spec_tracking_error :: "(nat \<Rightarrow> real) \<Rightarrow> (nat \<Rightarrow> real) \<Rightarrow> nat \<Rightarrow> real" where
  "spec_tracking_error p b n = spec_std (\<lambda>t. p t - b t) n * sqrt 12"

text \<open>
  The downside risk of a series of excess returns: the root of the mean square of its
  negative entries alone, times the square root of twelve; and the Sortino ratio of a
  portfolio for the annual risk-free rate \<open>rf\<close>.
\<close>

definition spec_downside_risk :: "(nat \<Rightarrow> real) \<Rightarrow> nat \<Rightarrow> real" where
  "spec_downside_risk e n =
     sqrt ((\<Sum>t\<in>{t. t < n \<and> e t < 0}. (e t)\<^sup>2) / real (card {t. t < n \<and> e t < 0})) * sqrt 12"

definition spec_sortino :: "(nat \<Rightarrow> real) \<Rightarrow> real \<Rightarrow> nat \<Rightarrow> real" where
  "spec_sortino p rf n =
     (spec_mean (\<lambda>t. p t - rf / 12) n * 12) / spec_downside_risk (\<lambda>t. p t - rf / 12) n"

text \<open>
  The covariance of two series and the variance of a series, with one divisor for both,
  and their quotient, the slope of the regression of the first series on the second.
\<close>

definition spec_covariance :: "(nat \<Rightarrow> real) \<Rightarrow> (nat \<Rightarrow> real) \<Rightarrow> nat \<Rightarrow> real" where
  "spec_covariance p b n = (\<Sum>t<n. (p t - spec_mean p n) * (b t - spec_mean b n)) / real n"

definition spec_variance :: "(nat \<Rightarrow> real) \<Rightarrow> nat \<Rightarrow> real" where
  "spec_variance b n = (\<Sum>t<n. (b t - spec_mean b n)\<^sup>2) / real n"

definition spec_beta :: "(nat \<Rightarrow> real) \<Rightarrow> (nat \<Rightarrow> real) \<Rightarrow> nat \<Rightarrow> real" where
  "spec_beta p b n = spec_covariance p b n / spec_variance b n"

section \<open>Both tabs, and a run on sample data\<close>

text \<open>The analytics block of either tab, and the state a block ends in, raised or not.\<close>

datatype tab = MVO | BL

fun analytics :: "tab \<Rightarrow> py_error + series \<Rightarrow> real \<Rightarrow> env \<Rightarrow> (py_error \<times> env) + env" where
  "analytics MVO = mvo_analytics"
| "analytics BL = bl_analytics"

text \<open>
  The solver dispatch, the optimization block and the plots of either tab, and the
  frontier a tab optimizes over: the MVO tab takes the expected returns of the
  estimation step, the Black-Litterman tab the returns \<open>rets\<close> of its model.
\<close>

fun solve :: "tab \<Rightarrow> pypfopt \<Rightarrow> efficient_frontier \<Rightarrow> sidebar \<Rightarrow> py_error + (weights \<times> label)" where
  "solve MVO = mvo_solve"
| "solve BL = bl_solve"

fun frontier :: "tab \<Rightarrow> estimates \<Rightarrow> (string \<times> real) list \<Rightarrow> sidebar \<Rightarrow> efficient_frontier" where
  "frontier MVO est rets sb =
     \<lparr>ef_expected_returns = expected_returns est, ef_cov_matrix = cov_matrix est,
      ef_weight_bounds = (lower_bound sb, upper_bound sb)\<rparr>"
| "frontier BL est rets sb =
     \<lparr>ef_expected_returns = rets, ef_cov_matrix = cov_matrix est,
      ef_weight_bounds = (lower_bound sb, upper_bound sb)\<rparr>"

fun optimize ::
  "tab \<Rightarrow> pypfopt \<Rightarrow> estimates \<Rightarrow> (string \<times> real) list \<Rightarrow> sidebar \<Rightarrow> env \<Rightarrow> (py_error \<times> env) + env" where
  "optimize MVO lib est rets = mvo_optimize lib est"
| "optimize BL lib est rets = bl_optimize lib rets (cov_matrix est)"

fun plots ::
  "tab \<Rightarrow> pypfopt \<Rightarrow> estimates \<Rightarrow> (string \<times> real) list \<Rightarrow> sidebar \<Rightarrow> env \<Rightarrow> (py_error \<times> env) + env" where
  "plots MVO lib est rets = mvo_plots lib est"
| "plots BL lib est rets = bl_plots lib rets (cov_matrix est)"

definition final_env :: "(py_error \<times> env) + env \<Rightarrow> env" where
  "final_env r = (case r of Inl (e, s) \<Rightarrow> s | Inr s \<Rightarrow> s)"

text \<open>What a block has added to the page of the state \<open>s\<close> it started in.\<close>

definition reported :: "env \<Rightarrow> (py_error \<times> env) + env \<Rightarrow> element list" where
  "reported s r = drop (length (shown s)) (shown (final_env r))"

text \<open>
  Three months of returns of the four factor indices, a portfolio, a benchmark, and a
  state of the script in which the optimizer's results are bound.
\<close>

definition sample_returns :: frame where
  "sample_returns =
     \<lparr>nrows = 3,
      columns = [(''USA QUALITY'', [2/100, -4/100, 1/100]),
                 (''USA LARGE VALUE'', [4/100, -2/100, 3/100]),
                 (''USA LARGE GROWTH'', [5/100, -6/100, 2/100]),
                 (''USA MINIMUM VOLATILITY'', [1/100, -1/100, 1/100])]\<rparr>"

definition sample_weights :: weights where
  "sample_weights =
     [(''USA QUALITY'', 1/2), (''USA LARGE VALUE'', 1/2),
      (''USA LARGE GROWTH'', 0), (''USA MINIMUM VOLATILITY'', 0)]"

definition sample_benchmark :: series where
  "sample_benchmark = [2/100, -2/100, 2/100]"

definition sample_env :: env where
  "sample_env =
     \<lparr>returns = sample_returns, optimization_label = Some Max_Sharpe_label,
      cleaned_weights = Some sample_weights, performance = Some (8/100, 15/100, 1/3),
      shown = []\<rparr>"

text \<open>
  A stand-in for the library, for running the script on concrete inputs. Its estimators
  give every asset an expected return of 10 percent and a variance of 4/100, with no
  covariance between assets. Its solvers know one case: a frontier whose assets all have
  the same expected return and the same variance, with no covariance, for which equal
  weights within the bounds are optimal; on any other frontier, or when the bounds
  exclude equal weights, the risk-free rate is not below the expected return or the
  target is above it, they raise. Its performance figures are the expected return, the
  volatility and the Sharpe ratio of the weights. Its Black-Litterman model returns the
  prior for no view, blends one view with the prior at a confidence \<open>tau\<close> of one and an
  uncertainty of the view equal to the variance of the viewed asset, and raises on
  more than one view and when asked for a market-implied prior without market
  capitalisations.
\<close>

definition scalar_matrix :: "nat \<Rightarrow> real \<Rightarrow> real list list" where
  "scalar_matrix n c = map (\<lambda>i. map (\<lambda>j. if i = j then c else 0) [0..<n]) [0..<n]"

definition first_variance :: "real list list \<Rightarrow> real" where
  "first_variance cov = (case cov of (c # r) # rs \<Rightarrow> c | _ \<Rightarrow> 0)"

definition first_return :: "(string \<times> real) list \<Rightarrow> real" where
  "first_return mu = (case mu of km # r \<Rightarrow> snd km | [] \<Rightarrow> 0)"

definition equal_weights_optimal :: "efficient_frontier \<Rightarrow> bool" where
  "equal_weights_optimal ef \<longleftrightarrow>
     (let mu = ef_expected_returns ef; n = length mu; c = first_variance (ef_cov_matrix ef)
      in 0 < n \<and> 0 < c \<and> ef_cov_matrix ef = scalar_matrix n c \<and>
         map snd mu = replicate n (first_return mu) \<and>
         fst (ef_weight_bounds ef) \<le> 1 / real n \<and> 1 / real n \<le> snd (ef_weight_bounds ef))"

definition equal_weights :: "efficient_frontier \<Rightarrow> weights" where
  "equal_weights ef =
     map (\<lambda>km. (fst km, 1 / real (length (ef_expected_returns ef)))) (ef_expected_returns ef)"

definition stub_max_sharpe :: "efficient_frontier \<Rightarrow> real \<Rightarrow> py_error + weights" where
  "stub_max_sharpe ef rf =
     (if equal_weights_optimal ef \<and> rf < first_return (ef_expected_returns ef)
      then Inr (equal_weights ef) else Inl OptimizationError)"

definition stub_efficient_return :: "efficient_frontier \<Rightarrow> real \<Rightarrow> py_error + weights" where
  "stub_efficient_return ef target =
     (if equal_weights_optimal ef \<and> target \<le> first_return (ef_expected_returns ef)
      then Inr (equal_weights ef) else Inl OptimizationError)"

definition stub_min_volatility :: "efficient_frontier \<Rightarrow> py_error + weights" where
  "stub_min_volatility ef =
     (if equal_weights_optimal ef then Inr (equal_weights ef) else Inl OptimizationError)"

definition stub_portfolio_performance ::
  "efficient_frontier \<Rightarrow> weights \<Rightarrow> real \<Rightarrow> py_error + (real \<times> real \<times> real)" where
  "stub_portfolio_performance ef w rf =
     (let er = portfolio_return (ef_expected_returns ef) w;
          var = portfolio_variance (ef_cov_matrix ef) w
      in if var \<le> 0 then Inl ValueError else Inr (er, sqrt var, (er - rf) / sqrt var))"

fun position :: "string \<Rightarrow> string list \<Rightarrow> nat option" where
  "position k [] = None"
| "position k (x # xs) = (if x = k then Some 0 else map_option Suc (position k xs))"

definition stub_bl_returns ::
  "real list list \<Rightarrow> (string \<times> real) list \<Rightarrow> prior \<Rightarrow> py_error + (string \<times> real) list" where
  "stub_bl_returns cov vs pr =
     (case pr of
        Prior_market \<Rightarrow> Inl ValueError
      | Prior_vector p \<Rightarrow>
          (case vs of
             [] \<Rightarrow> Inr p
           | [kq] \<Rightarrow>
               (case position (fst kq) (map fst p) of
                  None \<Rightarrow> Inl ValueError
                | Some a \<Rightarrow>
                    if cov ! a ! a \<le> 0 then Inl ValueError
                    else Inr (map (\<lambda>r. (fst (p ! r),
                                 snd (p ! r) + cov ! r ! a / (2 * cov ! a ! a) * (snd kq - snd (p ! a))))
                               [0..<length p]))
           | kq # kq' # others \<Rightarrow> Inl ValueError))"

definition stub_library :: pypfopt where
  "stub_library =
     \<lparr>mean_historical_return = (\<lambda>data frequency compounding. map (\<lambda>c. (fst c, 1/10)) (columns data)),
      ledoit_wolf = (\<lambda>data frequency. scalar_matrix (length (columns data)) (4/100)),
      max_sharpe = stub_max_sharpe,
      efficient_return = stub_efficient_return,
      min_volatility = stub_min_volatility,
      clean_weights = (\<lambda>w. w),
      portfolio_performance = stub_portfolio_performance,
      plot_efficient_frontier = (\<lambda>ef. Inr ()),
      bl_returns = stub_bl_returns\<rparr>"


definition sample_data :: frame where
  "sample_data =
     \<lparr>nrows = 4,
      columns = [(''USA QUALITY'', [100, 102, 9792/100, 989/10]),
                 (''USA LARGE VALUE'', [100, 104, 10192/100, 10498/100]),
                 (''USA LARGE GROWTH'', [100, 105, 987/10, 10067/100]),
                 (''USA MINIMUM VOLATILITY'', [100, 101, 9999/100, 10099/100])]\<rparr>"

definition sample_sidebar :: sidebar where
  "sample_sidebar =
     \<lparr>optimization_method = ''Max Sharpe'', lower_bound = 0, upper_bound = 1,
      rfr = 3/100, target_return = 8/100\<rparr>"

definition no_views :: views where
  "no_views = \<lparr>quality_view = None, value_view = None, growth_view = None, minvol_view = None\<rparr>"

text \<open>
  Further inputs: a portfolio that holds the first index alone, a sidebar whose two
  bounds are equal, a sidebar that asks for a target return above every asset's expected
  return, and a single view on the first index.
\<close>

definition quality_only :: weights where
  "quality_only =
     [(''USA QUALITY'', 1), (''USA LARGE VALUE'', 0),
      (''USA LARGE GROWTH'', 0), (''USA MINIMUM VOLATILITY'', 0)]"

definition equal_bounds_sidebar :: sidebar where
  "equal_bounds_sidebar = sample_sidebar\<lparr>lower_bound := 1/4, upper_bound := 1/4\<rparr>"

definition high_target_sidebar :: sidebar where
  "high_target_sidebar =
     sample_sidebar\<lparr>optimization_method := ''Efficient Return'', target_return := 15/100\<rparr>"

definition quality_view_only :: views where
  "quality_view_only = no_views\<lparr>quality_view := Some (1/5)\<rparr>"

text \<open>
  A sidebar whose bounds are in order and leave no portfolio of four assets: weights of
  at most a fifth each sum to four fifths at most. Estimates in which the first index is
  expected to fall by five percent a year.
\<close>

definition low_upper_sidebar :: sidebar where
  "low_upper_sidebar = sample_sidebar\<lparr>upper_bound := 1/5\<rparr>"

definition falling_estimates :: estimates where
  "falling_estimates =
     \<lparr>expected_returns = [(''USA QUALITY'', - 5/100), (''USA LARGE VALUE'', 8/100),
                          (''USA LARGE GROWTH'', 1/10), (''USA MINIMUM VOLATILITY'', 6/100)],
      cov_matrix = scalar_matrix 4 (4/100),
      asset_std_devs = [(''USA QUALITY'', Some (1/5)), (''USA LARGE VALUE'', Some (1/5)),
                        (''USA LARGE GROWTH'', Some (1/5)), (''USA MINIMUM VOLATILITY'', Some (1/5))]\<rparr>"

text \<open>
  The state of the MVO tab on the sample sheet after the stand-in's max-Sharpe solver has
  returned equal weights, and after the plots.
\<close>

definition equal_quarters :: weights where
  "equal_quarters =
     [(''USA QUALITY'', 1/4), (''USA LARGE VALUE'', 1/4),
      (''USA LARGE GROWTH'', 1/4), (''USA MINIMUM VOLATILITY'', 1/4)]"

definition optimized_env :: env where
  "optimized_env =
     (initial_env sample_returns)
       \<lparr>optimization_label := Some Max_Sharpe_label, cleaned_weights := Some equal_quarters,
        performance := Some (1/10, 1/10, 7/10)\<rparr>"

definition plotted_env :: env where
  "plotted_env =
     display [St_subheader ''Efficient Frontier'', St_pyplot ''Efficient Frontier'',
              St_subheader ''Optimized Portfolio Weights'', St_weights equal_quarters,
              St_pyplot ''Optimized Portfolio Allocation''] optimized_env"

section \<open>Lemmas\<close>

subsection \<open>Cumulative products, running maxima and minima\<close>

lemma length_cumprod_from: "length (cumprod_from a xs) = length xs"
  by (induction xs arbitrary: a) simp_all

lemma cumprod_from_nth:
  "t < length xs \<Longrightarrow> cumprod_from a xs ! t = a * (\<Prod>i\<le>t. xs ! i)"
proof (induction xs arbitrary: a t)
  case Nil
  then show ?case by simp
next
  case (Cons x xs)
  show ?case
  proof (cases t)
    case 0
    then show ?thesis by simp
  next
    case (Suc k)
    with Cons.prems have k: "k < length xs" by simp
    have "(\<Prod>i\<le>Suc k. (x # xs) ! i) = x * (\<Prod>i\<le>k. xs ! i)"
      by (subst prod.atMost_Suc_shift) simp
    with Cons.IH [OF k, of "a * x"] Suc show ?thesis by (simp add: mult.assoc)
  qed
qed

lemma length_cummax_from: "length (cummax_from m xs) = length xs"
  by (induction xs arbitrary: m) simp_all

lemma length_cummax: "length (cummax xs) = length xs"
  by (cases xs) (simp_all add: length_cummax_from)

lemma cummax_from_nth:
  "t < length xs \<Longrightarrow> cummax_from m xs ! t = Max (insert m ((\<lambda>i. xs ! i) ` {..t}))"
proof (induction xs arbitrary: m t)
  case Nil
  then show ?case by simp
next
  case (Cons x xs)
  show ?case
  proof (cases t)
    case 0
    then show ?thesis by (simp add: max.commute)
  next
    case (Suc k)
    with Cons.prems have k: "k < length xs" by simp
    have img: "(\<lambda>i. (x # xs) ! i) ` {..Suc k} = insert x ((\<lambda>i. xs ! i) ` {..k})"
      by (auto simp: image_iff atMost_Suc_eq_insert_0 nth_Cons split: nat.splits)
    have "Max (insert (max m x) ((\<lambda>i. xs ! i) ` {..k})) = Max (insert m (insert x ((\<lambda>i. xs ! i) ` {..k})))"
      by (simp add: max.assoc)
    with Cons.IH [OF k, of "max m x"] Suc img show ?thesis by simp
  qed
qed

lemma cummax_nth:
  "t < length xs \<Longrightarrow> cummax xs ! t = Max ((\<lambda>i. xs ! i) ` {..t})"
proof (cases xs)
  case Nil
  assume "t < length xs"
  with Nil show ?thesis by simp
next
  case (Cons x ys)
  assume t: "t < length xs"
  show ?thesis
  proof (cases t)
    case 0
    with Cons show ?thesis by simp
  next
    case (Suc k)
    with t Cons have k: "k < length ys" by simp
    have img: "(\<lambda>i. (x # ys) ! i) ` {..Suc k} = insert x ((\<lambda>i. ys ! i) ` {..k})"
      by (auto simp: image_iff atMost_Suc_eq_insert_0 nth_Cons split: nat.splits)
    from cummax_from_nth [OF k, of x] Suc Cons img show ?thesis by simp
  qed
qed

lemma dropna_map_Some: "dropna (map Some xs) = xs"
  by (induction xs) simp_all

lemma Min_insert_min: "finite S \<Longrightarrow> Min (insert (min a y) S) = Min (insert y (insert a S))" for a y :: real
  by (cases "S = {}") (simp_all add: min.assoc min.commute)

lemma fold_min_Min: "fold min ys (y::real) = Min (insert y (set ys))"
  by (induction ys arbitrary: y) (simp_all add: Min_insert_min)

lemma series_min_Some:
  "xs \<noteq> [] \<Longrightarrow> series_min (map Some xs) = Some (Min (set xs))"
  by (cases xs) (simp_all add: series_min_def dropna_map_Some fold_min_Min)

subsection \<open>Selected columns and their weighted sum\<close>

lemma getitem_columns_present:
  "list_all (\<lambda>k. map_of cols k \<noteq> None) ks \<Longrightarrow>
   getitem_columns cols ks = Inr (map (\<lambda>k. (k, the (map_of cols k))) ks)"
  by (induction ks) auto

lemma selected_dot:
  assumes "list_all (\<lambda>kw. map_of cols (fst kw) \<noteq> None) cw"
  shows "(\<Sum>(c, w)\<leftarrow>zip (map snd (map (\<lambda>k. (k, the (map_of cols k))) (map fst cw))) (map snd cw). c ! t * w)
       = (\<Sum>(k, w)\<leftarrow>cw. (case map_of cols k of None \<Rightarrow> 0 | Some c \<Rightarrow> c ! t) * w)"
  using assms by (induction cw) auto

lemma frame_dot_selected:
  assumes "list_all (\<lambda>kw. map_of cols (fst kw) \<noteq> None) cw"
  shows "frame_dot \<lparr>nrows = n, columns = map (\<lambda>k. (k, the (map_of cols k))) (map fst cw)\<rparr> (map snd cw)
       = Inr (map (\<lambda>t. \<Sum>(k, w)\<leftarrow>cw. (case map_of cols k of None \<Rightarrow> 0 | Some c \<Rightarrow> c ! t) * w) [0..<n])"
proof -
  have "frame_dot \<lparr>nrows = n, columns = map (\<lambda>k. (k, the (map_of cols k))) (map fst cw)\<rparr> (map snd cw)
      = Inr (map (\<lambda>t. \<Sum>(c, w)\<leftarrow>zip (map snd (map (\<lambda>k. (k, the (map_of cols k))) (map fst cw))) (map snd cw). c ! t * w) [0..<n])"
    unfolding frame_dot_def by simp
  then show ?thesis
    by (simp only: selected_dot [OF assms])
qed

lemma drawdown_of_returns:
  fixes p :: "nat \<Rightarrow> real"
  assumes "0 < n" and "\<forall>t<n. spec_running_max p t \<noteq> 0"
  shows "series_min (map2 (\<lambda>c m. fdiv (c - m) m)
            (cumprod (map (\<lambda>r. 1 + r) (map p [0..<n])))
            (cummax (cumprod (map (\<lambda>r. 1 + r) (map p [0..<n])))))
         = Some (spec_max_drawdown p n)"
proof -
  define cum where "cum = cumprod (map (\<lambda>r. 1 + r) (map p [0..<n]))"
  define dd where "dd = (\<lambda>t. (spec_cumulative p t - spec_running_max p t) / spec_running_max p t)"
  have len: "length cum = n" by (simp add: cum_def cumprod_def length_cumprod_from)
  have cum: "cum ! t = spec_cumulative p t" if "t < n" for t
  proof -
    have "(\<Prod>i\<le>t. map (\<lambda>r. 1 + r) (map p [0..<n]) ! i) = (\<Prod>i\<le>t. 1 + p i)"
      using that by (intro prod.cong) auto
    with that show ?thesis
      by (simp add: cum_def cumprod_def cumprod_from_nth spec_cumulative_def)
  qed
  have roll: "cummax cum ! t = spec_running_max p t" if "t < n" for t
  proof -
    have "(\<lambda>i. cum ! i) ` {..t} = spec_cumulative p ` {..t}"
    proof (rule image_cong)
      fix x assume "x \<in> {..t}"
      with that have "x < n" by simp
      then show "cum ! x = spec_cumulative p x" by (rule cum)
    qed simp
    with that len show ?thesis by (simp add: cummax_nth spec_running_max_def)
  qed
  have "map2 (\<lambda>c m. fdiv (c - m) m) cum (cummax cum) = map Some (map dd [0..<n])"
  proof (rule nth_equalityI)
    show "length (map2 (\<lambda>c m. fdiv (c - m) m) cum (cummax cum)) = length (map Some (map dd [0..<n]))"
      by (simp add: len length_cummax)
  next
    fix i assume "i < length (map2 (\<lambda>c m. fdiv (c - m) m) cum (cummax cum))"
    then have i: "i < n" by (simp add: len length_cummax)
    with assms(2) have "spec_running_max p i \<noteq> 0" by simp
    with i show "map2 (\<lambda>c m. fdiv (c - m) m) cum (cummax cum) ! i = map Some (map dd [0..<n]) ! i"
      by (simp add: len length_cummax cum roll fdiv_def dd_def)
  qed
  moreover from assms(1) have "map dd [0..<n] \<noteq> []" by simp
  then have "series_min (map Some (map dd [0..<n])) = Some (Min (set (map dd [0..<n])))"
    by (rule series_min_Some)
  moreover have "set (map dd [0..<n]) = dd ` {..<n}" by (simp add: atLeast0LessThan)
  ultimately show ?thesis
    unfolding cum_def [symmetric] by (simp add: spec_max_drawdown_def dd_def)
qed

subsection \<open>Statistics of a series given by its months\<close>

lemma sum_list_upt: "sum_list (map f [0..<n]) = (\<Sum>t<n. f t)" for f :: "nat \<Rightarrow> real"
  by (simp add: interv_sum_list_conv_sum_set_nat atLeast0LessThan)

lemma series_mean_upt:
  "0 < n \<Longrightarrow> series_mean (map f [0..<n]) = Some (spec_mean f n)"
  by (simp add: series_mean_def fdiv_def spec_mean_def sum_list_upt o_def)

lemma np_var_upt:
  "0 < n \<Longrightarrow> np_var (map f [0..<n]) = Some ((\<Sum>t<n. (f t - spec_mean f n)\<^sup>2) / real n)"
  by (simp add: np_var_def series_mean_upt fdiv_def sum_list_upt o_def)

lemma np_std_upt:
  "0 < n \<Longrightarrow> np_std (map f [0..<n]) = Some (spec_std f n)"
  by (simp add: np_std_def np_var_upt spec_std_def)

lemma map2_upt:
  "length b = n \<Longrightarrow> map2 g (map f [0..<n]) b = map (\<lambda>t. g (f t) (b ! t)) [0..<n]"
  by (rule nth_equalityI) simp_all

lemma map_of_setitem_columns:
  "map_of (setitem_columns cols k s) k' = (if k' = k then Some s else map_of cols k')"
  by (induction cols) auto

lemma getitem_setitem:
  "getitem (setitem fr k s) k' = (if k' = k then Inr s else getitem fr k')"
  by (simp add: getitem_def setitem_def map_of_setitem_columns)

lemma filter_sum_upt:
  fixes e :: "nat \<Rightarrow> real"
  shows "sum_list (map g (filter P (map e [0..<n]))) = (\<Sum>t\<in>{t. t < n \<and> P (e t)}. g (e t))"
proof -
  have "sum_list (map g (filter P (map e [0..<n]))) = sum_list (map (\<lambda>t. g (e t)) (filter (\<lambda>t. P (e t)) [0..<n]))"
    by (simp add: filter_map o_def)
  also have "\<dots> = (\<Sum>t\<in>set (filter (\<lambda>t. P (e t)) [0..<n]). g (e t))"
    by (rule sum_list_distinct_conv_sum_set) simp
  also have "set (filter (\<lambda>t. P (e t)) [0..<n]) = {t. t < n \<and> P (e t)}" by auto
  finally show ?thesis .
qed

lemma filter_length_upt:
  "length (filter P (map e [0..<n])) = card {t. t < n \<and> P (e t)}"
proof -
  have "length (filter P (map e [0..<n])) = length (filter (\<lambda>t. P (e t)) [0..<n])"
    by (simp add: filter_map o_def)
  also have "\<dots> = card (set (filter (\<lambda>t. P (e t)) [0..<n]))"
    by (rule distinct_card [symmetric]) simp
  also have "set (filter (\<lambda>t. P (e t)) [0..<n]) = {t. t < n \<and> P (e t)}" by auto
  finally show ?thesis .
qed

subsection \<open>The analytics blocks\<close>

lemma bl_drawdown_eq: "bl_drawdown = mvo_drawdown"
  by (simp add: fun_eq_iff bl_drawdown_def mvo_drawdown_def)

lemma bl_benchmark_eq: "bl_benchmark = mvo_benchmark"
  by (simp add: fun_eq_iff bl_benchmark_def mvo_benchmark_def)

lemma bl_analytics_eq: "bl_analytics = mvo_analytics"
  unfolding fun_eq_iff bl_analytics_def mvo_analytics_def bl_drawdown_eq bl_benchmark_eq
  by (intro allI refl)

lemma analytics_eq: "analytics tb = mvo_analytics"
  by (cases tb) (simp_all add: bl_analytics_eq)

lemma mvo_benchmark_eval:
  "mvo_benchmark fr p b rf =
     Inr (setitem (setitem fr ''Portfolio'' p) ''MSCI USA'' b,
          \<lparr>active_risk = map_option (\<lambda>s. s * sqrt 12) (np_std (map2 (-) p b)),
           sortino_ratio =
             odiv (map_option (\<lambda>m. m * 12) (series_mean (map (\<lambda>r. r - rf / 12) p)))
               (map_option (\<lambda>s. sqrt s * sqrt 12)
                  (series_mean (map (\<lambda>e. e\<^sup>2) (filter (\<lambda>e. e < 0) (map (\<lambda>r. r - rf / 12) p))))),
           beta = odiv (np_cov p b) (np_var b),
           alpha = lift2 (-) (map_option (\<lambda>m. m * 12) (series_mean p))
                     (map_option (\<lambda>x. rf + x)
                        (lift2 (*) (odiv (np_cov p b) (np_var b))
                           (map_option (\<lambda>r. r - rf) (map_option (\<lambda>m. m * 12) (series_mean b))))),
           information_ratio =
             odiv (lift2 (-) (map_option (\<lambda>m. m * 12) (series_mean p))
                     (map_option (\<lambda>m. m * 12) (series_mean b)))
               (map_option (\<lambda>s. s * sqrt 12) (np_std (map2 (-) p b)))\<rparr>)"
  by (simp add: mvo_benchmark_def Let_def getitem_setitem)

lemma mvo_drawdown_eval:
  assumes "has_columns fr cw"
  shows "mvo_drawdown fr cw =
     Inr \<lparr>portfolio_returns = map (weighted_return fr cw) [0..<nrows fr],
          cumulative_returns = cumprod (map (\<lambda>r. 1 + r) (map (weighted_return fr cw) [0..<nrows fr])),
          rolling_max = cummax (cumprod (map (\<lambda>r. 1 + r) (map (weighted_return fr cw) [0..<nrows fr]))),
          drawdowns = map2 (\<lambda>c m. fdiv (c - m) m)
             (cumprod (map (\<lambda>r. 1 + r) (map (weighted_return fr cw) [0..<nrows fr])))
             (cummax (cumprod (map (\<lambda>r. 1 + r) (map (weighted_return fr cw) [0..<nrows fr])))),
          max_drawdown = series_min (map2 (\<lambda>c m. fdiv (c - m) m)
             (cumprod (map (\<lambda>r. 1 + r) (map (weighted_return fr cw) [0..<nrows fr])))
             (cummax (cumprod (map (\<lambda>r. 1 + r) (map (weighted_return fr cw) [0..<nrows fr])))))\<rparr>"
proof -
  from assms have pres: "list_all (\<lambda>k. map_of (columns fr) k \<noteq> None) (map fst cw)"
    by (simp add: has_columns_def list_all_iff)
  from assms have pres': "list_all (\<lambda>kw. map_of (columns fr) (fst kw) \<noteq> None) cw"
    by (simp add: has_columns_def)
  have w: "(\<lambda>t. \<Sum>(k, w)\<leftarrow>cw. (case map_of (columns fr) k of None \<Rightarrow> 0 | Some c \<Rightarrow> c ! t) * w) = weighted_return fr cw"
    by (simp add: weighted_return_def asset_return_def fun_eq_iff)
  show ?thesis
    unfolding mvo_drawdown_def getitem_list_def getitem_columns_present [OF pres] sum.case
      frame_dot_selected [OF pres'] w Let_def
    by (rule refl)
qed

lemma mvo_analytics_drawdown_shown:
  assumes "performance s = Some perf" and "cleaned_weights s = Some cw"
    and "mvo_drawdown (returns s) cw = Inr d"
  shows "St_metric ''Maximum Drawdown'' (max_drawdown d) \<in> set (shown (final_env (mvo_analytics bmk rf s)))"
  using assms
  by (cases perf; cases bmk)
     (simp_all add: mvo_analytics_def final_env_def display_def Let_def mvo_benchmark_eval)

lemma mvo_analytics_success:
  assumes "performance s = Some (er, vol, sr)" and "cleaned_weights s = Some cw"
    and "mvo_drawdown (returns s) cw = Inr d"
    and "mvo_benchmark (returns s) (portfolio_returns d) b rf = Inr (fr', m)"
  shows "mvo_analytics (Inr b) rf s =
     Inr (s\<lparr>returns := fr',
            shown := shown s @
              [St_subheader ''Portfolio Performance'',
               St_metric ''Expected Annual Return'' (Some er),
               St_metric ''Annual Volatility (Risk)'' (Some vol),
               St_metric ''Sharpe Ratio'' (Some sr),
               St_subheader ''Additional Metrics and Drawdown Analysis'',
               St_metric ''Maximum Drawdown'' (max_drawdown d),
               St_pyplot ''Portfolio Drawdown'',
               St_subheader ''Benchmark relative metrics'',
               St_metric ''Active Risk (Tracking Error)'' (active_risk m),
               St_metric ''Sortino Ratio'' (sortino_ratio m),
               St_metric ''Beta'' (beta m),
               St_metric ''Alpha'' (alpha m),
               St_metric ''Information Ratio'' (information_ratio m)]\<rparr>)"
  using assms by (simp add: mvo_analytics_def display_def Let_def)

lemma active_risk_value:
  assumes "length b = n" and "0 < n"
  shows "map_option (\<lambda>s. s * sqrt 12) (np_std (map2 (-) (map pf [0..<n]) b))
       = Some (spec_tracking_error pf (\<lambda>t. b ! t) n)"
  by (simp add: map2_upt [OF assms(1)] np_std_upt [OF assms(2)] spec_tracking_error_def)

lemma sortino_value:
  fixes pf :: "nat \<Rightarrow> real"
  assumes "\<exists>t<n. pf t - rf / 12 < 0"
  shows "odiv (map_option (\<lambda>m. m * 12) (series_mean (map (\<lambda>r. r - rf / 12) (map pf [0..<n]))))
           (map_option (\<lambda>s. sqrt s * sqrt 12)
              (series_mean (map (\<lambda>e. e\<^sup>2) (filter (\<lambda>e. e < 0) (map (\<lambda>r. r - rf / 12) (map pf [0..<n]))))))
       = Some (spec_sortino pf rf n)"
proof -
  define e where "e = (\<lambda>t. pf t - rf / 12)"
  define N where "N = {t. t < n \<and> e t < 0}"
  from assms have n: "0 < n" by auto
  have fin: "finite N" by (simp add: N_def)
  from assms have ne: "N \<noteq> {}" by (auto simp: N_def e_def)
  then have card: "0 < card N" using fin by (simp add: card_gt_0_iff)
  have ex: "map (\<lambda>r. r - rf / 12) (map pf [0..<n]) = map e [0..<n]"
    by (simp add: e_def)
  have spec: "spec_sortino pf rf n
      = (spec_mean e n * 12) / (sqrt ((\<Sum>t\<in>N. (e t)\<^sup>2) / real (card N)) * sqrt 12)"
    by (simp add: spec_sortino_def spec_downside_risk_def e_def N_def)
  have pos: "0 < (\<Sum>t\<in>N. (e t)\<^sup>2)"
  proof (rule sum_pos)
    show "finite N" by (rule fin)
    show "N \<noteq> {}" by (rule ne)
    fix t assume "t \<in> N"
    then have "e t \<noteq> 0" by (auto simp: N_def)
    then show "0 < (e t)\<^sup>2" by simp
  qed
  have down: "series_mean (map (\<lambda>e. e\<^sup>2) (filter (\<lambda>e. e < 0) (map e [0..<n])))
            = Some ((\<Sum>t\<in>N. (e t)\<^sup>2) / real (card N))"
    unfolding series_mean_def length_map filter_sum_upt filter_length_upt N_def [symmetric]
    using card by (simp add: fdiv_def)
  have nz: "sqrt ((\<Sum>t\<in>N. (e t)\<^sup>2) / real (card N)) * sqrt 12 \<noteq> 0"
    using pos card by simp
  show ?thesis
    unfolding ex down series_mean_upt [OF n] spec
    using nz by (simp add: odiv_def fdiv_def)
qed

lemma sample_weighted_returns:
  "weighted_return sample_returns sample_weights 0 = 3/100 \<and>
   weighted_return sample_returns sample_weights 1 = -3/100 \<and>
   weighted_return sample_returns sample_weights 2 = 2/100"
  by (simp add: weighted_return_def asset_return_def sample_returns_def sample_weights_def)

lemma zip_upt:
  "length b = n \<Longrightarrow> zip (map pf [0..<n]) b = map (\<lambda>t. (pf t, b ! t)) [0..<n]"
  by (rule nth_equalityI) simp_all

lemma nth_upt_map: "length b = n \<Longrightarrow> b = map (\<lambda>t. b ! t) [0..<n]"
  by (rule nth_equalityI) simp_all

lemma np_cov_upt:
  assumes "length b = n" and "2 \<le> n"
  shows "np_cov (map pf [0..<n]) b
       = Some ((\<Sum>t<n. (pf t - spec_mean pf n) * (b ! t - spec_mean (\<lambda>t. b ! t) n)) / (real n - 1))"
proof -
  from assms(2) have n: "0 < n" by simp
  have mb: "series_mean b = Some (spec_mean (\<lambda>t. b ! t) n)"
    using series_mean_upt [OF n, of "\<lambda>t. b ! t"] nth_upt_map [OF assms(1)] by simp
  have "real n - 1 \<noteq> 0" using assms(2) by simp
  then show ?thesis
    unfolding np_cov_def series_mean_upt [OF n] mb zip_upt [OF assms(1)]
    by (simp add: fdiv_def sum_list_upt o_def)
qed

lemma beta_value:
  assumes "length b = n" and "2 \<le> n" and "spec_variance (\<lambda>t. b ! t) n \<noteq> 0"
  shows "odiv (np_cov (map pf [0..<n]) b) (np_var b)
       = Some (real n / (real n - 1) * spec_beta pf (\<lambda>t. b ! t) n)"
proof -
  from assms(2) have n: "0 < n" by simp
  have vb: "np_var b = Some (spec_variance (\<lambda>t. b ! t) n)"
    using np_var_upt [OF n, of "\<lambda>t. b ! t"] nth_upt_map [OF assms(1)]
    by (simp add: spec_variance_def)
  have n1: "real n - 1 \<noteq> 0" using assms(2) by simp
  show ?thesis
    unfolding np_cov_upt [OF assms(1,2)] vb
    using assms(3) n n1
    by (simp add: odiv_def fdiv_def spec_beta_def spec_covariance_def)
qed

lemma alpha_and_information_ratio_value:
  assumes "length b = n" and "0 < n"
    and "mvo_benchmark fr (map pf [0..<n]) b rf = Inr (fr', m)"
  shows "alpha m = map_option (\<lambda>x. spec_mean pf n * 12 - (rf + x * (spec_mean (\<lambda>t. b ! t) n * 12 - rf))) (beta m) \<and>
         information_ratio m
           = odiv (Some (spec_mean pf n * 12 - spec_mean (\<lambda>t. b ! t) n * 12)) (active_risk m)"
proof -
  have mb: "series_mean b = Some (spec_mean (\<lambda>t. b ! t) n)"
    using series_mean_upt [OF assms(2), of "\<lambda>t. b ! t"] nth_upt_map [OF assms(1)] by simp
  have mp: "series_mean (map pf [0..<n]) = Some (spec_mean pf n)"
    by (rule series_mean_upt [OF assms(2)])
  from assms(3) [unfolded mvo_benchmark_eval]
  have m: "m = \<lparr>active_risk = map_option (\<lambda>s. s * sqrt 12) (np_std (map2 (-) (map pf [0..<n]) b)),
           sortino_ratio =
             odiv (map_option (\<lambda>m. m * 12) (series_mean (map (\<lambda>r. r - rf / 12) (map pf [0..<n]))))
               (map_option (\<lambda>s. sqrt s * sqrt 12)
                  (series_mean (map (\<lambda>e. e\<^sup>2) (filter (\<lambda>e. e < 0) (map (\<lambda>r. r - rf / 12) (map pf [0..<n])))))),
           beta = odiv (np_cov (map pf [0..<n]) b) (np_var b),
           alpha = lift2 (-) (map_option (\<lambda>m. m * 12) (series_mean (map pf [0..<n])))
                     (map_option (\<lambda>x. rf + x)
                        (lift2 (*) (odiv (np_cov (map pf [0..<n]) b) (np_var b))
                           (map_option (\<lambda>r. r - rf) (map_option (\<lambda>m. m * 12) (series_mean b))))),
           information_ratio =
             odiv (lift2 (-) (map_option (\<lambda>m. m * 12) (series_mean (map pf [0..<n])))
                     (map_option (\<lambda>m. m * 12) (series_mean b)))
               (map_option (\<lambda>s. s * sqrt 12) (np_std (map2 (-) (map pf [0..<n]) b)))\<rparr>"
    by simp
  show ?thesis
    unfolding m mp mb
    by (cases "odiv (np_cov (map pf [0..<n]) b) (np_var b)") (simp_all add: lift2_def)
qed

lemma quality_only_returns:
  "map (weighted_return sample_returns quality_only) [0..<3] = [2/100, -4/100, 1/100]"
  by (simp add: weighted_return_def asset_return_def sample_returns_def quality_only_def upt_rec)

lemma getitem_columns_cong:
  "list_all (\<lambda>k. map_of cols' k = map_of cols k) ks \<Longrightarrow>
   getitem_columns cols' ks = getitem_columns cols ks"
  by (induction ks) (auto split: option.splits)

lemma mvo_drawdown_cong:
  assumes "nrows fr' = nrows fr"
    and "list_all (\<lambda>kw. map_of (columns fr') (fst kw) = map_of (columns fr) (fst kw)) cw"
  shows "mvo_drawdown fr' cw = mvo_drawdown fr cw"
proof -
  from assms(2) have "list_all (\<lambda>k. map_of (columns fr') k = map_of (columns fr) k) (map fst cw)"
    by (simp add: list_all_iff)
  then have "getitem_columns (columns fr') (map fst cw) = getitem_columns (columns fr) (map fst cw)"
    by (rule getitem_columns_cong)
  then show ?thesis
    unfolding mvo_drawdown_def getitem_list_def assms(1) by simp
qed

lemma mvo_analytics_appends:
  "\<exists>es. shown (final_env (mvo_analytics bmk rf s)) = shown s @ es"
  by (simp add: mvo_analytics_def final_env_def display_def Let_def mvo_benchmark_eval
        split: sum.splits prod.splits option.splits)

lemma reported_mvo_analytics:
  "reported s (mvo_analytics bmk rf s) =
     St_subheader ''Portfolio Performance'' #
     (case performance s of None \<Rightarrow> []
      | Some (er, vol, sr) \<Rightarrow>
          [St_metric ''Expected Annual Return'' (Some er),
           St_metric ''Annual Volatility (Risk)'' (Some vol),
           St_metric ''Sharpe Ratio'' (Some sr),
           St_subheader ''Additional Metrics and Drawdown Analysis''] @
          (case cleaned_weights s of None \<Rightarrow> []
           | Some cw \<Rightarrow>
              (case mvo_drawdown (returns s) cw of Inl e \<Rightarrow> []
               | Inr d \<Rightarrow>
                   [St_metric ''Maximum Drawdown'' (max_drawdown d),
                    St_pyplot ''Portfolio Drawdown'',
                    St_subheader ''Benchmark relative metrics''] @
                   (case bmk of Inl e \<Rightarrow> []
                    | Inr b \<Rightarrow>
                       (case mvo_benchmark \<lparr>nrows = 0, columns = []\<rparr> (portfolio_returns d) b rf of
                          Inl e \<Rightarrow> []
                        | Inr (fr, m) \<Rightarrow>
                            [St_metric ''Active Risk (Tracking Error)'' (active_risk m),
                             St_metric ''Sortino Ratio'' (sortino_ratio m),
                             St_metric ''Beta'' (beta m),
                             St_metric ''Alpha'' (alpha m),
                             St_metric ''Information Ratio'' (information_ratio m)])))))"
  by (simp add: reported_def mvo_analytics_def final_env_def display_def Let_def mvo_benchmark_eval
        split: sum.splits prod.splits option.splits)

subsection \<open>The estimation step and the tabs\<close>


lemma mvo_tab_bounds:
  assumes "upper_bound sb \<le> lower_bound sb" and "performance s = None"
  shows "mvo_tab lib est bmk sb s
       = display adjust_messages (display [St_error ''Lower bound must be less than upper bound''] s)"
  using assms
  by (simp add: mvo_tab_def mvo_optimize_def mvo_plots_def display_def Let_def split: sum.splits)

lemma bl_try_bounds:
  assumes "upper_bound sb \<le> lower_bound sb" and "performance s = None"
  shows "bl_try lib rets cov bmk sb s
       = display adjust_messages (display [St_error ''Lower bound must be less than upper bound''] s)"
  using assms
  by (simp add: bl_try_def bl_optimize_def bl_plots_def display_def Let_def split: sum.splits)

lemma mvo_tab_solver_fails:
  assumes "lower_bound sb < upper_bound sb"
    and "mvo_solve lib \<lparr>ef_expected_returns = expected_returns est, ef_cov_matrix = cov_matrix est,
                         ef_weight_bounds = (lower_bound sb, upper_bound sb)\<rparr> sb = Inl e"
  shows "mvo_tab lib est bmk sb s = display adjust_messages s"
  using assms by (simp add: mvo_tab_def mvo_optimize_def Let_def)

lemma bl_try_solver_fails:
  assumes "lower_bound sb < upper_bound sb"
    and "bl_solve lib \<lparr>ef_expected_returns = rets, ef_cov_matrix = cov,
                        ef_weight_bounds = (lower_bound sb, upper_bound sb)\<rparr> sb = Inl e"
  shows "bl_try lib rets cov bmk sb s = display adjust_messages s"
  using assms by (simp add: bl_try_def bl_optimize_def Let_def)

lemma bl_optimize_appends:
  "\<exists>es. shown (final_env (bl_optimize lib rets cov sb s)) = shown s @ es"
  by (simp add: bl_optimize_def final_env_def display_def Let_def split: sum.splits prod.splits)

lemma bl_plots_appends:
  "\<exists>es. shown (final_env (bl_plots lib rets cov sb s)) = shown s @ es"
  by (simp add: bl_plots_def final_env_def display_def Let_def
        split: sum.splits prod.splits option.splits)

lemma bl_try_appends:
  "\<exists>es. shown (bl_try lib rets cov bmk sb s) = shown s @ es"
proof -
  obtain e1 where o: "shown (final_env (bl_optimize lib rets cov sb s)) = shown s @ e1"
    using bl_optimize_appends by blast
  show ?thesis
  proof (cases "bl_optimize lib rets cov sb s")
    case (Inl a)
    with o show ?thesis
      by (cases a) (simp add: bl_try_def final_env_def display_def)
  next
    case (Inr s1)
    with o have s1: "shown s1 = shown s @ e1" by (simp add: final_env_def)
    obtain e2 where p: "shown (final_env (bl_plots lib rets cov sb s1)) = shown s1 @ e2"
      using bl_plots_appends by blast
    show ?thesis
    proof (cases "bl_plots lib rets cov sb s1")
      case (Inl a)
      with p s1 Inr show ?thesis
        by (cases a) (simp add: bl_try_def final_env_def display_def)
    next
      case inr2: (Inr s2)
      with p have s2: "shown s2 = shown s1 @ e2" by (simp add: final_env_def)
      obtain e3 where a: "shown (final_env (mvo_analytics bmk (rfr sb) s2)) = shown s2 @ e3"
        using mvo_analytics_appends by blast
      show ?thesis
      proof (cases "mvo_analytics bmk (rfr sb) s2")
        case (Inl a')
        with a s1 s2 Inr inr2 show ?thesis
          by (cases a') (simp add: bl_try_def bl_analytics_eq final_env_def display_def)
      next
        case inr3: (Inr s3)
        with a s1 s2 Inr inr2 show ?thesis
          by (simp add: bl_try_def bl_analytics_eq final_env_def)
      qed
    qed
  qed
qed

lemma map_of_viewdict:
  "map_of (viewdict v) ''USA QUALITY'' = quality_view v \<and>
   map_of (viewdict v) ''USA LARGE VALUE'' = value_view v \<and>
   map_of (viewdict v) ''USA LARGE GROWTH'' = growth_view v \<and>
   map_of (viewdict v) ''USA MINIMUM VOLATILITY'' = minvol_view v"
  by (cases "quality_view v"; cases "value_view v"; cases "growth_view v"; cases "minvol_view v")
     (simp_all add: viewdict_def view_entry_def)

text \<open>The portfolio problems, and the stand-in solvers.\<close>

lemma sum_list_upt_set: "(\<Sum>i\<leftarrow>[0..<n]. f i) = (\<Sum>i<n. f i)" for f :: "nat \<Rightarrow> real"
  by (simp add: interv_sum_list_conv_sum_set_nat atLeast0LessThan)

lemma sum_list_nth_set: "sum_list xs = (\<Sum>i<length xs. xs ! i)" for xs :: "real list"
  by (simp add: sum_list_sum_nth atLeast0LessThan)

lemma sum_squares_lower:
  fixes x :: "nat \<Rightarrow> real"
  assumes "(\<Sum>i<n. x i) = 1" and "0 < n"
  shows "1 / real n \<le> (\<Sum>i<n. (x i)\<^sup>2)"
proof -
  have "0 \<le> (\<Sum>i<n. (x i - 1 / real n)\<^sup>2)" by (rule sum_nonneg) simp
  also have "(\<Sum>i<n. (x i - 1 / real n)\<^sup>2)
      = (\<Sum>i<n. (x i)\<^sup>2) - 2 / real n * (\<Sum>i<n. x i) + real n * (1 / real n)\<^sup>2"
  proof -
    have "(\<Sum>i<n. (x i - 1 / real n)\<^sup>2)
        = (\<Sum>i<n. ((x i)\<^sup>2 - 2 / real n * x i) + (1 / real n)\<^sup>2)"
      by (intro sum.cong refl) (simp add: power2_diff algebra_simps)
    also have "\<dots> = (\<Sum>i<n. (x i)\<^sup>2 - 2 / real n * x i) + real n * (1 / real n)\<^sup>2"
      by (simp add: sum.distrib)
    also have "(\<Sum>i<n. (x i)\<^sup>2 - 2 / real n * x i)
        = (\<Sum>i<n. (x i)\<^sup>2) - 2 / real n * (\<Sum>i<n. x i)"
      by (simp only: sum_subtractf sum_distrib_left)
    finally show ?thesis .
  qed
  also have "\<dots> = (\<Sum>i<n. (x i)\<^sup>2) - 1 / real n"
    using assms by (simp add: power2_eq_square field_simps)
  finally show ?thesis by simp
qed

lemma variance_scalar:
  assumes "length w = n"
  shows "portfolio_variance (scalar_matrix n c) w = c * (\<Sum>i<n. (snd (w ! i))\<^sup>2)"
proof -
  have inner: "(\<Sum>j<n. snd (w ! i) * scalar_matrix n c ! i ! j * snd (w ! j)) = c * (snd (w ! i))\<^sup>2"
    if "i < n" for i
  proof -
    have "(\<Sum>j<n. snd (w ! i) * scalar_matrix n c ! i ! j * snd (w ! j))
        = (\<Sum>j<n. if i = j then c * (snd (w ! i))\<^sup>2 else 0)"
      using that by (intro sum.cong) (auto simp: scalar_matrix_def power2_eq_square)
    also have "\<dots> = c * (snd (w ! i))\<^sup>2" using that by simp
    finally show ?thesis .
  qed
  have "portfolio_variance (scalar_matrix n c) w
      = (\<Sum>i<n. \<Sum>j<n. snd (w ! i) * scalar_matrix n c ! i ! j * snd (w ! j))"
    by (simp add: portfolio_variance_def assms sum_list_upt_set)
  also have "\<dots> = (\<Sum>i<n. c * (snd (w ! i))\<^sup>2)"
    by (intro sum.cong refl) (simp add: inner)
  finally show ?thesis by (simp add: sum_distrib_left)
qed

lemma feasible_length: "feasible ef w \<Longrightarrow> length w = length (ef_expected_returns ef)"
  unfolding feasible_def by (metis length_map)

lemma feasible_sum:
  assumes "feasible ef w"
  shows "(\<Sum>i<length (ef_expected_returns ef). snd (w ! i)) = 1"
proof -
  from assms have "sum_list (map snd w) = 1" by (simp add: feasible_def)
  then have "(\<Sum>i<length (map snd w). map snd w ! i) = 1" by (simp only: sum_list_nth_set)
  then show ?thesis using feasible_length [OF assms] by simp
qed

lemma equal_weights_feasible:
  assumes "equal_weights_optimal ef"
  shows "feasible ef (equal_weights ef)"
proof -
  let ?n = "length (ef_expected_returns ef)"
  from assms have n: "0 < ?n"
    and lo: "fst (ef_weight_bounds ef) \<le> 1 / real ?n" and hi: "1 / real ?n \<le> snd (ef_weight_bounds ef)"
    by (simp_all add: equal_weights_optimal_def Let_def)
  have "(\<Sum>x\<leftarrow>equal_weights ef. snd x) = (\<Sum>km\<leftarrow>ef_expected_returns ef. 1 / real ?n)"
    by (simp add: equal_weights_def o_def)
  also have "\<dots> = real ?n * (1 / real ?n)" by (simp add: sum_list_triv)
  also have "\<dots> = 1" using n by simp
  finally have s: "(\<Sum>x\<leftarrow>equal_weights ef. snd x) = 1" .
  show ?thesis
    using s lo hi by (simp add: feasible_def equal_weights_def o_def list_all_iff)
qed

lemma return_of_feasible:
  assumes "equal_weights_optimal ef" and "feasible ef w"
  shows "portfolio_return (ef_expected_returns ef) w = first_return (ef_expected_returns ef)"
proof -
  let ?mu = "ef_expected_returns ef"
  let ?n = "length ?mu"
  from assms(1) have m: "map snd ?mu = replicate ?n (first_return ?mu)"
    by (simp add: equal_weights_optimal_def Let_def)
  have mi: "snd (?mu ! i) = first_return ?mu" if "i < ?n" for i
  proof -
    from that have "snd (?mu ! i) = map snd ?mu ! i" by simp
    also have "\<dots> = first_return ?mu" using that by (subst m) simp
    finally show ?thesis .
  qed
  have "portfolio_return ?mu w = (\<Sum>i<?n. snd (w ! i) * snd (?mu ! i))"
    by (simp add: portfolio_return_def feasible_length [OF assms(2)] sum_list_upt_set)
  also have "\<dots> = (\<Sum>i<?n. snd (w ! i) * first_return ?mu)"
    by (intro sum.cong refl) (simp add: mi)
  also have "\<dots> = (\<Sum>i<?n. snd (w ! i)) * first_return ?mu"
    by (simp add: sum_distrib_right)
  finally show ?thesis by (simp add: feasible_sum [OF assms(2)])
qed

lemma variance_of_feasible:
  assumes "equal_weights_optimal ef" and "feasible ef w"
  shows "first_variance (ef_cov_matrix ef) / real (length (ef_expected_returns ef))
           \<le> portfolio_variance (ef_cov_matrix ef) w"
proof -
  let ?n = "length (ef_expected_returns ef)"
  let ?c = "first_variance (ef_cov_matrix ef)"
  from assms(1) have n: "0 < ?n" and c: "0 < ?c" and cov: "ef_cov_matrix ef = scalar_matrix ?n ?c"
    by (simp_all add: equal_weights_optimal_def Let_def)
  have v: "portfolio_variance (ef_cov_matrix ef) w = ?c * (\<Sum>i<?n. (snd (w ! i))\<^sup>2)"
    by (subst cov) (rule variance_scalar [OF feasible_length [OF assms(2)]])
  have "1 / real ?n \<le> (\<Sum>i<?n. (snd (w ! i))\<^sup>2)"
    by (rule sum_squares_lower [OF feasible_sum [OF assms(2)] n])
  then have "?c * (1 / real ?n) \<le> ?c * (\<Sum>i<?n. (snd (w ! i))\<^sup>2)"
    using c by (intro mult_left_mono) simp_all
  then show ?thesis unfolding v by simp
qed

lemma variance_of_equal_weights:
  assumes "equal_weights_optimal ef"
  shows "portfolio_variance (ef_cov_matrix ef) (equal_weights ef)
       = first_variance (ef_cov_matrix ef) / real (length (ef_expected_returns ef))"
proof -
  let ?n = "length (ef_expected_returns ef)"
  let ?c = "first_variance (ef_cov_matrix ef)"
  from assms have n: "0 < ?n" and cov: "ef_cov_matrix ef = scalar_matrix ?n ?c"
    by (simp_all add: equal_weights_optimal_def Let_def)
  have len: "length (equal_weights ef) = ?n" by (simp add: equal_weights_def)
  have "portfolio_variance (ef_cov_matrix ef) (equal_weights ef)
      = ?c * (\<Sum>i<?n. (snd (equal_weights ef ! i))\<^sup>2)"
    by (subst cov) (rule variance_scalar [OF len])
  also have "(\<Sum>i<?n. (snd (equal_weights ef ! i))\<^sup>2) = (\<Sum>i<?n. (1 / real ?n)\<^sup>2)"
    by (intro sum.cong refl) (simp add: equal_weights_def)
  also have "\<dots> = 1 / real ?n" using n by (simp add: power2_eq_square)
  finally show ?thesis by simp
qed

lemma stub_solves_min_volatility:
  "equal_weights_optimal ef \<Longrightarrow> solves_min_volatility ef (equal_weights ef)"
  unfolding solves_min_volatility_def
  by (simp add: equal_weights_feasible variance_of_equal_weights variance_of_feasible)

lemma stub_solves_efficient_return:
  "equal_weights_optimal ef \<Longrightarrow> target \<le> first_return (ef_expected_returns ef) \<Longrightarrow>
   solves_efficient_return ef target (equal_weights ef)"
  unfolding solves_efficient_return_def
  by (simp add: equal_weights_feasible variance_of_equal_weights variance_of_feasible
        return_of_feasible)

lemma stub_solves_max_sharpe:
  assumes "equal_weights_optimal ef" and "rf < first_return (ef_expected_returns ef)"
  shows "solves_max_sharpe ef rf (equal_weights ef)"
proof -
  let ?n = "length (ef_expected_returns ef)"
  let ?c = "first_variance (ef_cov_matrix ef)"
  let ?m = "first_return (ef_expected_returns ef)"
  from assms(1) have n: "0 < ?n" and c: "0 < ?c"
    by (simp_all add: equal_weights_optimal_def Let_def)
  have veq: "portfolio_variance (ef_cov_matrix ef) (equal_weights ef) = ?c / real ?n"
    by (rule variance_of_equal_weights [OF assms(1)])
  have pos: "0 < ?c / real ?n" using n c by simp
  have best: "sharpe_of ef rf w' \<le> sharpe_of ef rf (equal_weights ef)"
    if f: "feasible ef w'" and v: "0 < portfolio_variance (ef_cov_matrix ef) w'" for w'
  proof -
    have le: "?c / real ?n \<le> portfolio_variance (ef_cov_matrix ef) w'"
      by (rule variance_of_feasible [OF assms(1) f])
    then have "sqrt (?c / real ?n) \<le> sqrt (portfolio_variance (ef_cov_matrix ef) w')" by simp
    moreover have "0 < sqrt (?c / real ?n)" using pos by simp
    moreover have "0 \<le> ?m - rf" using assms(2) by simp
    ultimately have "(?m - rf) / sqrt (portfolio_variance (ef_cov_matrix ef) w')
        \<le> (?m - rf) / sqrt (?c / real ?n)"
      by (intro divide_left_mono) (simp_all add: v)
    then show ?thesis
      by (simp add: sharpe_of_def return_of_feasible [OF assms(1)] f
            equal_weights_feasible [OF assms(1)] veq)
  qed
  show ?thesis
    unfolding solves_max_sharpe_def
    using best pos by (simp add: equal_weights_feasible [OF assms(1)] veq)
qed

text \<open>The Black-Litterman blend, and the stand-in model and performance figures.\<close>

lemma position_Some: "position k xs = Some a \<Longrightarrow> a < length xs \<and> xs ! a = k"
  by (induction xs arbitrary: a) (auto split: if_splits)

lemma bl_posterior_no_views: "bl_posterior cov [] pri post \<longleftrightarrow> post = pri"
proof -
  have "map (\<lambda>r. (fst (pri ! r), snd (pri ! r))) [0..<length pri] = pri"
    by (rule nth_equalityI) simp_all
  then show ?thesis
    by (auto simp: bl_posterior_def intro: exI [of _ 1])
qed

lemma stub_bl_meets_spec:
  assumes "stub_bl_returns cov vs (Prior_vector pri) = Inr post"
  shows "bl_posterior cov vs pri post"
proof (cases vs)
  case Nil
  with assms show ?thesis by (simp add: stub_bl_returns_def bl_posterior_no_views)
next
  case (Cons kq rest)
  show ?thesis
  proof (cases rest)
    case (Cons kq' others)
    with \<open>vs = kq # rest\<close> assms show ?thesis by (simp add: stub_bl_returns_def)
  next
    case Nil
    with \<open>vs = kq # rest\<close> have vs: "vs = [kq]" by simp
    from assms vs obtain a where a: "position (fst kq) (map fst pri) = Some a"
      and c: "0 < cov ! a ! a"
      and post: "post = map (\<lambda>r. (fst (pri ! r),
                   snd (pri ! r) + cov ! r ! a / (2 * cov ! a ! a) * (snd kq - snd (pri ! a))))
                 [0..<length pri]"
      by (auto simp: stub_bl_returns_def split: option.splits if_splits)
    from position_Some [OF a] have al: "a < length pri" and ak: "fst (pri ! a) = fst kq"
      by auto
    let ?y = "(snd kq - snd (pri ! a)) / (2 * cov ! a ! a)"
    have "0 < (1::real) \<and> length [cov ! a ! a] = length vs \<and> list_all (\<lambda>x. 0 < x) [cov ! a ! a] \<and>
        length [?y] = length vs \<and> length [a] = length vs \<and>
        (\<forall>i<length vs.
           [a] ! i < length pri \<and> fst (pri ! ([a] ! i)) = fst (vs ! i) \<and>
           (\<Sum>j\<leftarrow>[0..<length vs]. 1 * cov ! ([a] ! i) ! ([a] ! j) * [?y] ! j) + [cov ! a ! a] ! i * [?y] ! i
             = snd (vs ! i) - snd (pri ! ([a] ! i))) \<and>
        post = map (\<lambda>r. (fst (pri ! r),
                          snd (pri ! r) + (\<Sum>j\<leftarrow>[0..<length vs]. 1 * cov ! r ! ([a] ! j) * [?y] ! j)))
                 [0..<length pri]"
      using c al ak by (simp add: vs post)
    then show ?thesis unfolding bl_posterior_def by blast
  qed
qed

lemma stub_performance_meets_spec:
  assumes "stub_portfolio_performance ef w rf = Inr (er, vol, sr)"
  shows "er = portfolio_return (ef_expected_returns ef) w \<and>
         vol = sqrt (portfolio_variance (ef_cov_matrix ef) w) \<and>
         (vol \<noteq> 0 \<longrightarrow> sr = (er - rf) / vol)"
  using assms by (auto simp: stub_portfolio_performance_def Let_def split: if_splits)





text \<open>The script on a library that meets the descriptions.\<close>

lemma sum_list_le_bound:
  "list_all (\<lambda>x. snd x \<le> hi) w \<Longrightarrow> (\<Sum>x\<leftarrow>w. snd x) \<le> real (length w) * hi"
  for w :: "(string \<times> real) list"
  by (induction w) (simp_all add: algebra_simps)

lemma feasible_needs_room:
  assumes "feasible ef w"
  shows "1 \<le> real (length (ef_expected_returns ef)) * snd (ef_weight_bounds ef)"
proof -
  from assms have "list_all (\<lambda>x. snd x \<le> snd (ef_weight_bounds ef)) w"
    by (simp add: feasible_def list_all_iff)
  from sum_list_le_bound [OF this] assms feasible_length [OF assms]
  show ?thesis by (simp add: feasible_def)
qed

lemma stub_solvers_spec: "solvers_spec stub_library"
  unfolding solvers_spec_def
  by (auto simp: stub_library_def stub_max_sharpe_def stub_efficient_return_def
        stub_min_volatility_def stub_solves_max_sharpe stub_solves_efficient_return
        stub_solves_min_volatility split: if_splits)

lemma stub_performance_spec: "performance_spec stub_library"
  unfolding performance_spec_def
  using stub_performance_meets_spec by (simp add: stub_library_def)

lemma stub_black_litterman_spec: "black_litterman_spec stub_library"
  unfolding black_litterman_spec_def
  using stub_bl_meets_spec by (simp add: stub_library_def)


lemma bl_solve_eq: "bl_solve = mvo_solve"
  unfolding fun_eq_iff bl_solve_def mvo_solve_def by (intro allI refl)

lemma solve_eq: "solve tb = mvo_solve"
  by (cases tb) (simp_all add: bl_solve_eq)

lemma bl_optimize_eq:
  "bl_optimize lib (expected_returns est) (cov_matrix est) sb s = mvo_optimize lib est sb s"
  unfolding bl_optimize_def mvo_optimize_def bl_solve_eq ..

lemma mvo_solve_meets_spec:
  assumes "solvers_spec lib" and "mvo_solve lib ef sb = Inr (w, l)"
  shows "feasible ef w \<and>
         (optimization_method sb = ''Max Sharpe'' \<longrightarrow> solves_max_sharpe ef (rfr sb) w) \<and>
         (optimization_method sb = ''Efficient Return'' \<longrightarrow>
            solves_efficient_return ef (target_return sb) w) \<and>
         (optimization_method sb = ''Minimum Volatility'' \<longrightarrow> solves_min_volatility ef w)"
  using assms
  by (auto simp: mvo_solve_def solvers_spec_def solves_max_sharpe_def
        solves_efficient_return_def solves_min_volatility_def split: if_splits sum.splits)

lemma optimize_success:
  assumes "lower_bound sb < upper_bound sb" and "optimize tb lib est rets sb s0 = Inr s1"
  shows "\<exists>w l perf. solve tb lib (frontier tb est rets sb) sb = Inr (w, l) \<and>
           portfolio_performance lib (frontier tb est rets sb) w (rfr sb) = Inr perf \<and>
           s1 = s0\<lparr>optimization_label := Some l, cleaned_weights := Some (clean_weights lib w),
                   performance := Some perf\<rparr>"
  using assms
  by (cases tb)
     (auto simp: mvo_optimize_def bl_optimize_def Let_def split: sum.splits prod.splits)

lemma plots_success:
  assumes "plots tb lib est rets sb s1 = Inr s2"
  shows "\<exists>es. s2 = s1\<lparr>shown := shown s1 @ es\<rparr>"
  using assms
  by (cases tb)
     (auto simp: mvo_plots_def bl_plots_def Let_def display_def
        split: sum.splits option.splits if_splits)

lemma sqrt_hundredth: "sqrt (1 / 100) = 1 / 10"
  by (rule real_sqrt_unique) (simp_all add: power2_eq_square)

lemma single_view_posterior:
  assumes "bl_posterior cov [(k, q)] pri post"
  shows "\<exists>a tau omega. a < length pri \<and> fst (pri ! a) = k \<and> 0 < tau \<and> 0 < omega \<and>
           (tau * cov ! a ! a + omega) * snd (post ! a)
             = omega * snd (pri ! a) + tau * cov ! a ! a * q"
proof -
  from assms obtain tau omega y a where tau: "0 < tau"
    and lo: "length omega = 1" and om: "list_all (\<lambda>x. 0 < x) omega"
    and ly: "length y = 1" and la: "length a = 1"
    and a: "a ! 0 < length pri" and k: "fst (pri ! (a ! 0)) = k"
    and eq: "tau * cov ! (a ! 0) ! (a ! 0) * y ! 0 + omega ! 0 * y ! 0 = q - snd (pri ! (a ! 0))"
    and post: "post = map (\<lambda>r. (fst (pri ! r), snd (pri ! r) + tau * cov ! r ! (a ! 0) * y ! 0))
                        [0..<length pri]"
    by (auto simp: bl_posterior_def)
  from lo om have o: "0 < omega ! 0" by (cases omega) simp_all
  from a post have p: "snd (post ! (a ! 0)) = snd (pri ! (a ! 0)) + tau * cov ! (a ! 0) ! (a ! 0) * y ! 0"
    by simp
  have "(tau * cov ! (a ! 0) ! (a ! 0) + omega ! 0) * snd (post ! (a ! 0))
      = (tau * cov ! (a ! 0) ! (a ! 0) + omega ! 0) * snd (pri ! (a ! 0))
        + tau * cov ! (a ! 0) ! (a ! 0) * (tau * cov ! (a ! 0) ! (a ! 0) * y ! 0 + omega ! 0 * y ! 0)"
    unfolding p by (simp add: algebra_simps)
  also have "\<dots> = omega ! 0 * snd (pri ! (a ! 0)) + tau * cov ! (a ! 0) ! (a ! 0) * q"
    unfolding eq by (simp add: algebra_simps)
  finally show ?thesis using a k tau o by blast
qed

lemma market_implied_nonneg:
  assumes "market_implied (scalar_matrix (length pri) c) pri" and "0 \<le> c"
  shows "list_all (\<lambda>km. 0 \<le> snd km) pri"
proof -
  from assms(1) obtain delta w rf where d: "0 < delta" and rf: "0 \<le> rf"
    and lw: "length w = length pri" and w: "list_all (\<lambda>x. 0 \<le> x) w"
    and eq: "map snd pri
          = map (\<lambda>i. delta * (\<Sum>j\<leftarrow>[0..<length w]. scalar_matrix (length pri) c ! i ! j * w ! j) + rf)
              [0..<length pri]"
    by (auto simp: market_implied_def)
  have "0 \<le> snd (pri ! i)" if i: "i < length pri" for i
  proof -
    from eq i have "snd (pri ! i)
        = delta * (\<Sum>j\<leftarrow>[0..<length w]. scalar_matrix (length pri) c ! i ! j * w ! j) + rf"
      by (metis (no_types, lifting) nth_map nth_map_upt add.left_neutral diff_zero)
    moreover have "0 \<le> (\<Sum>j\<leftarrow>[0..<length w]. scalar_matrix (length pri) c ! i ! j * w ! j)"
    proof (rule sum_list_nonneg)
      fix x assume "x \<in> set (map (\<lambda>j. scalar_matrix (length pri) c ! i ! j * w ! j) [0..<length w])"
      then obtain j where j: "j < length w" and x: "x = scalar_matrix (length pri) c ! i ! j * w ! j"
        by auto
      from w j have "0 \<le> w ! j" by (simp add: list_all_length)
      with assms(2) i j lw show "0 \<le> x" unfolding x by (simp add: scalar_matrix_def)
    qed
    ultimately show ?thesis using d rf by simp
  qed
  then show ?thesis by (simp add: list_all_length)
qed

lemma analytics_sortino:
  assumes "performance s = Some (er, vol, sr)" and "cleaned_weights s = Some cw"
    and "has_columns (returns s) cw"
    and "\<exists>t<nrows (returns s). weighted_return (returns s) cw t - rf / 12 < 0"
  shows "\<exists>s'. analytics tb (Inr b) rf s = Inr s' \<and>
           St_metric ''Annual Volatility (Risk)'' (Some vol) \<in> set (shown s') \<and>
           St_metric ''Sharpe Ratio'' (Some sr) \<in> set (shown s') \<and>
           St_metric ''Sortino Ratio''
             (Some (spec_sortino (weighted_return (returns s) cw) rf (nrows (returns s))))
           \<in> set (shown s')"
proof -
  note dd = mvo_drawdown_eval [OF assms(3)]
  show ?thesis
    unfolding analytics_eq
    using assms(1,2)
    by (simp add: mvo_analytics_success [OF _ _ dd mvo_benchmark_eval]
          sortino_value [OF assms(4)] del: map_map)
qed

text \<open>The MVO tab on the sample sheet.\<close>

lemma sample_optimize:
  "optimize MVO stub_library (estimation stub_library sample_data) [] sample_sidebar
     (initial_env sample_returns) = Inr optimized_env"
  by (simp add: mvo_optimize_def mvo_solve_def estimation_def Let_def sample_sidebar_def
        stub_library_def sample_data_def stub_max_sharpe_def equal_weights_optimal_def
        scalar_matrix_def first_variance_def first_return_def equal_weights_def
        stub_portfolio_performance_def portfolio_return_def portfolio_variance_def
        upt_rec sqrt_hundredth optimized_env_def equal_quarters_def)

lemma sample_plots:
  "plots MVO stub_library (estimation stub_library sample_data) [] sample_sidebar optimized_env
     = Inr plotted_env"
  by (simp add: mvo_plots_def Let_def stub_library_def optimized_env_def plotted_env_def
        display_def equal_quarters_def initial_env_def)

lemma sample_performance:
  "portfolio_performance stub_library
     (frontier MVO (estimation stub_library sample_data) [] sample_sidebar) equal_quarters (3/100)
   = Inr (1/10, 1/10, 7/10)"
  by (simp add: estimation_def Let_def sample_sidebar_def
        stub_library_def sample_data_def scalar_matrix_def
        stub_portfolio_performance_def portfolio_return_def portfolio_variance_def
        upt_rec sqrt_hundredth equal_quarters_def)


section \<open>The estimation step\<close>



section \<open>The optimization step\<close>

text \<open>
  Claim C1, as the script has it. Let the library's solvers solve the problems the
  specification names, and the lower bound be below the upper bound. Whenever the
  optimization block of the MVO tab completes, the weights it binds are the cleaned form
  of weights \<open>w\<close> that hold a weight for each asset of the estimated expected returns,
  sum to one, lie each within the two bounds, and solve the selected problem over the
  estimated expected returns and covariance matrix: max-Sharpe for the sidebar's
  risk-free rate, minimum risk at the sidebar's target return, or minimum variance. The
  block need not complete: when no weights within the bounds sum to one the solver
  raises, the block binds nothing, and the tab shows the two messages of the handler.
\<close>

theorem mvo_solves_selected_problem:
  fixes lib :: pypfopt and data :: frame and sb :: sidebar and s :: env
  defines "ef \<equiv> \<lparr>ef_expected_returns = mean_historical_return lib data 12 True,
                   ef_cov_matrix = ledoit_wolf lib data 12,
                   ef_weight_bounds = (lower_bound sb, upper_bound sb)\<rparr>"
  assumes "solvers_spec lib" and "lower_bound sb < upper_bound sb"
  shows "(\<forall>s1. mvo_optimize lib (estimation lib data) sb s = Inr s1 \<longrightarrow>
            (\<exists>w. cleaned_weights s1 = Some (clean_weights lib w) \<and>
                 map fst w = map fst (mean_historical_return lib data 12 True) \<and>
                 (\<Sum>x\<leftarrow>w. snd x) = 1 \<and>
                 list_all (\<lambda>x. lower_bound sb \<le> snd x \<and> snd x \<le> upper_bound sb) w \<and>
                 (optimization_method sb = ''Max Sharpe'' \<longrightarrow> solves_max_sharpe ef (rfr sb) w) \<and>
                 (optimization_method sb = ''Efficient Return'' \<longrightarrow>
                    solves_efficient_return ef (target_return sb) w) \<and>
                 (optimization_method sb = ''Minimum Volatility'' \<longrightarrow>
                    solves_min_volatility ef w))) \<and>
         ((\<nexists>w. feasible ef w) \<longrightarrow>
            (\<exists>e. mvo_optimize lib (estimation lib data) sb s = Inl (e, s)) \<and>
            shown (mvo_tab lib (estimation lib data) bmk sb s) = shown s @ adjust_messages)"
proof -
  have est: "\<lparr>ef_expected_returns = expected_returns (estimation lib data),
              ef_cov_matrix = cov_matrix (estimation lib data),
              ef_weight_bounds = (lower_bound sb, upper_bound sb)\<rparr> = ef"
    by (simp add: ef_def estimation_def Let_def)
  have opt: "mvo_optimize lib (estimation lib data) sb s =
       (case mvo_solve lib ef sb of Inl e \<Rightarrow> Inl (e, s)
        | Inr (w, l) \<Rightarrow>
            (case portfolio_performance lib ef w (rfr sb) of
               Inl e \<Rightarrow> Inl (e, s\<lparr>optimization_label := Some l,
                                   cleaned_weights := Some (clean_weights lib w)\<rparr>)
             | Inr perf \<Rightarrow> Inr (s\<lparr>optimization_label := Some l,
                                   cleaned_weights := Some (clean_weights lib w),
                                   performance := Some perf\<rparr>)))"
    using assms(3) unfolding mvo_optimize_def est Let_def by simp
  have first: "\<exists>w. cleaned_weights s1 = Some (clean_weights lib w) \<and>
                 map fst w = map fst (mean_historical_return lib data 12 True) \<and>
                 (\<Sum>x\<leftarrow>w. snd x) = 1 \<and>
                 list_all (\<lambda>x. lower_bound sb \<le> snd x \<and> snd x \<le> upper_bound sb) w \<and>
                 (optimization_method sb = ''Max Sharpe'' \<longrightarrow> solves_max_sharpe ef (rfr sb) w) \<and>
                 (optimization_method sb = ''Efficient Return'' \<longrightarrow>
                    solves_efficient_return ef (target_return sb) w) \<and>
                 (optimization_method sb = ''Minimum Volatility'' \<longrightarrow>
                    solves_min_volatility ef w)"
    if run: "mvo_optimize lib (estimation lib data) sb s = Inr s1" for s1
  proof -
    from run obtain w l where sol: "mvo_solve lib ef sb = Inr (w, l)"
      and cw: "cleaned_weights s1 = Some (clean_weights lib w)"
      unfolding opt by (auto split: sum.splits prod.splits)
    from mvo_solve_meets_spec [OF assms(2) sol] have f: "feasible ef w"
      and p: "optimization_method sb = ''Max Sharpe'' \<longrightarrow> solves_max_sharpe ef (rfr sb) w"
         "optimization_method sb = ''Efficient Return'' \<longrightarrow>
            solves_efficient_return ef (target_return sb) w"
         "optimization_method sb = ''Minimum Volatility'' \<longrightarrow> solves_min_volatility ef w"
      by simp_all
    from f have "map fst w = map fst (mean_historical_return lib data 12 True)"
      and "(\<Sum>x\<leftarrow>w. snd x) = 1"
      and "list_all (\<lambda>x. lower_bound sb \<le> snd x \<and> snd x \<le> upper_bound sb) w"
      by (simp_all add: feasible_def ef_def)
    with cw p show ?thesis by blast
  qed
  have second: "(\<exists>e. mvo_optimize lib (estimation lib data) sb s = Inl (e, s)) \<and>
            shown (mvo_tab lib (estimation lib data) bmk sb s) = shown s @ adjust_messages"
    if none: "\<nexists>w. feasible ef w"
  proof -
    have "mvo_solve lib ef sb \<noteq> Inr (w, l)" for w l
      using none mvo_solve_meets_spec [OF assms(2), of ef sb w l] by blast
    then obtain e where "mvo_solve lib ef sb = Inl e"
      by (cases "mvo_solve lib ef sb") auto
    then have "mvo_optimize lib (estimation lib data) sb s = Inl (e, s)"
      unfolding opt by simp
    then show ?thesis by (simp add: mvo_tab_def display_def)
  qed
  from first second show ?thesis by blast
qed

text \<open>
  On the sample sheet, with the stand-in library, bounds of zero and one and
  \<^verbatim>\<open>Max Sharpe\<close> selected, the block binds equal weights, which solve the max-Sharpe
  problem for a risk-free rate of 3 percent.
\<close>

theorem mvo_solves_selected_problem_witness:
  "solvers_spec stub_library \<and>
   lower_bound sample_sidebar < upper_bound sample_sidebar \<and>
   optimization_method sample_sidebar = ''Max Sharpe'' \<and>
   mvo_optimize stub_library (estimation stub_library sample_data) sample_sidebar
       (initial_env sample_returns)
     = Inr ((initial_env sample_returns)
             \<lparr>optimization_label := Some Max_Sharpe_label,
              cleaned_weights := Some [(''USA QUALITY'', 1/4), (''USA LARGE VALUE'', 1/4),
                                       (''USA LARGE GROWTH'', 1/4), (''USA MINIMUM VOLATILITY'', 1/4)],
              performance := Some (1/10, 1/10, 7/10)\<rparr>) \<and>
   solves_max_sharpe
     \<lparr>ef_expected_returns = mean_historical_return stub_library sample_data 12 True,
      ef_cov_matrix = ledoit_wolf stub_library sample_data 12,
      ef_weight_bounds = (0, 1)\<rparr> (3/100)
     [(''USA QUALITY'', 1/4), (''USA LARGE VALUE'', 1/4),
      (''USA LARGE GROWTH'', 1/4), (''USA MINIMUM VOLATILITY'', 1/4)]"
proof -
  let ?w = "[(''USA QUALITY'', 1/4), (''USA LARGE VALUE'', 1/4),
             (''USA LARGE GROWTH'', 1/4), (''USA MINIMUM VOLATILITY'', 1/4)] :: weights"
  let ?s1 = "(initial_env sample_returns)
             \<lparr>optimization_label := Some Max_Sharpe_label, cleaned_weights := Some ?w,
              performance := Some (1/10, 1/10, 7/10)\<rparr>"
  have b: "lower_bound sample_sidebar < upper_bound sample_sidebar"
    and m: "optimization_method sample_sidebar = ''Max Sharpe''"
    and r: "rfr sample_sidebar = 3/100" "lower_bound sample_sidebar = 0" "upper_bound sample_sidebar = 1"
    by (simp_all add: sample_sidebar_def)
  have run: "mvo_optimize stub_library (estimation stub_library sample_data) sample_sidebar
               (initial_env sample_returns) = Inr ?s1"
    by (simp add: mvo_optimize_def mvo_solve_def estimation_def Let_def sample_sidebar_def
          stub_library_def sample_data_def stub_max_sharpe_def equal_weights_optimal_def
          scalar_matrix_def first_variance_def first_return_def equal_weights_def
          stub_portfolio_performance_def portfolio_return_def portfolio_variance_def
          upt_rec sqrt_hundredth)
  from mvo_solves_selected_problem
         [OF stub_solvers_spec b, of sample_data "initial_env sample_returns"] run m
  obtain w where "Some ?w = Some (clean_weights stub_library w)"
    and "solves_max_sharpe
           \<lparr>ef_expected_returns = mean_historical_return stub_library sample_data 12 True,
            ef_cov_matrix = ledoit_wolf stub_library sample_data 12,
            ef_weight_bounds = (lower_bound sample_sidebar, upper_bound sample_sidebar)\<rparr>
           (rfr sample_sidebar) w"
    by auto
  then have "solves_max_sharpe
     \<lparr>ef_expected_returns = mean_historical_return stub_library sample_data 12 True,
      ef_cov_matrix = ledoit_wolf stub_library sample_data 12,
      ef_weight_bounds = (0, 1)\<rparr> (3/100) ?w"
    unfolding r by (simp add: stub_library_def)
  with stub_solvers_spec b m run show ?thesis by blast
qed

text \<open>
  The claim as first stated has weights computed for every pair of bounds in order. With
  four assets, a lower bound of zero and an upper bound of a fifth, the bounds are in
  order and no weights within them sum to one; the tab shows the two messages of the
  handler and nothing else.
\<close>

theorem infeasible_bounds_counterexample:
  "lower_bound low_upper_sidebar < upper_bound low_upper_sidebar \<and>
   (\<nexists>w. list_all (\<lambda>x. lower_bound low_upper_sidebar \<le> snd x \<and>
                          snd x \<le> upper_bound low_upper_sidebar) w \<and>
        map fst w = map fst (expected_returns (estimation stub_library sample_data)) \<and>
        (\<Sum>x\<leftarrow>w. snd x) = 1) \<and>
   fst (script stub_library sample_data sample_returns (Inr sample_benchmark)
          (Inr sample_benchmark) low_upper_sidebar no_views)
     = adjust_messages"
proof -
  let ?ef = "\<lparr>ef_expected_returns = expected_returns (estimation stub_library sample_data),
              ef_cov_matrix = cov_matrix (estimation stub_library sample_data),
              ef_weight_bounds = (lower_bound low_upper_sidebar, upper_bound low_upper_sidebar)\<rparr>"
  have b: "lower_bound low_upper_sidebar < upper_bound low_upper_sidebar"
    by (simp add: low_upper_sidebar_def sample_sidebar_def)
  have none: "\<not> feasible ?ef w" for w
    using feasible_needs_room [of ?ef w]
    by (auto simp: estimation_def Let_def stub_library_def sample_data_def
          low_upper_sidebar_def sample_sidebar_def)
  then have no: "\<nexists>w. list_all (\<lambda>x. lower_bound low_upper_sidebar \<le> snd x \<and>
                          snd x \<le> upper_bound low_upper_sidebar) w \<and>
        map fst w = map fst (expected_returns (estimation stub_library sample_data)) \<and>
        (\<Sum>x\<leftarrow>w. snd x) = 1"
    by (auto simp: feasible_def)
  have "mvo_solve stub_library ?ef low_upper_sidebar = Inl OptimizationError"
    by (simp add: mvo_solve_def low_upper_sidebar_def sample_sidebar_def stub_library_def
          stub_max_sharpe_def equal_weights_optimal_def estimation_def Let_def sample_data_def)
  from mvo_tab_solver_fails [OF b this]
  have "fst (script stub_library sample_data sample_returns (Inr sample_benchmark)
          (Inr sample_benchmark) low_upper_sidebar no_views) = adjust_messages"
    by (simp add: script_def Let_def initial_env_def display_def)
  with b no show ?thesis by blast
qed

section \<open>The Black-Litterman step\<close>

text \<open>
  Claim C2, as the script has it. The prior handed to the Black-Litterman model is the
  vector of expected returns of the estimation step, the compounded mean historical
  returns, not a prior implied by the market. With a library whose model is the blend
  the specification describes, the returns the tab displays are the Bayesian weighted
  average of that prior and the views entered through the checkboxes: the dictionary of
  views holds, for each asset, the slider's value where the checkbox is ticked and
  nothing where it is not. With a single view, the displayed return of the viewed asset
  is the average of its prior return and the view with positive weights, the
  uncertainty of the view and the uncertainty of the prior.
\<close>

theorem black_litterman_blends_historical_mean_with_views:
  fixes lib :: pypfopt and data :: frame and v :: views
  defines "mu \<equiv> mean_historical_return lib data 12 True"
    and "cov \<equiv> ledoit_wolf lib data 12"
  assumes "black_litterman_spec lib"
    and "black_litterman lib (estimation lib data) v = Inr rets"
  shows "bl_returns lib cov (viewdict v) (Prior_vector mu) = Inr rets \<and>
         bl_posterior cov (viewdict v) mu rets \<and>
         map_of (viewdict v) ''USA QUALITY'' = quality_view v \<and>
         map_of (viewdict v) ''USA LARGE VALUE'' = value_view v \<and>
         map_of (viewdict v) ''USA LARGE GROWTH'' = growth_view v \<and>
         map_of (viewdict v) ''USA MINIMUM VOLATILITY'' = minvol_view v \<and>
         (\<forall>k q. viewdict v = [(k, q)] \<longrightarrow>
            (\<exists>a tau omega. a < length mu \<and> fst (mu ! a) = k \<and> 0 < tau \<and> 0 < omega \<and>
               (tau * cov ! a ! a + omega) * snd (rets ! a)
                 = omega * snd (mu ! a) + tau * cov ! a ! a * q)) \<and>
         St_dataframe rets
           \<in> set (shown (final_env (bl_tab lib (estimation lib data) bmk sb v s)))"
proof -
  from assms(4) have call: "bl_returns lib cov (viewdict v) (Prior_vector mu) = Inr rets"
    by (simp add: black_litterman_def estimation_def Let_def mu_def cov_def)
  with assms(3) have blend: "bl_posterior cov (viewdict v) mu rets"
    by (simp add: black_litterman_spec_def)
  have one: "\<forall>k q. viewdict v = [(k, q)] \<longrightarrow>
            (\<exists>a tau omega. a < length mu \<and> fst (mu ! a) = k \<and> 0 < tau \<and> 0 < omega \<and>
               (tau * cov ! a ! a + omega) * snd (rets ! a)
                 = omega * snd (mu ! a) + tau * cov ! a ! a * q)"
  proof (intro allI impI)
    fix k q
    assume "viewdict v = [(k, q)]"
    with blend have "bl_posterior cov [(k, q)] mu rets" by simp
    then show "\<exists>a tau omega. a < length mu \<and> fst (mu ! a) = k \<and> 0 < tau \<and> 0 < omega \<and>
               (tau * cov ! a ! a + omega) * snd (rets ! a)
                 = omega * snd (mu ! a) + tau * cov ! a ! a * q"
      by (rule single_view_posterior)
  qed
  obtain es where "shown (bl_try lib rets (cov_matrix (estimation lib data)) bmk sb
                      (display [St_dataframe rets] (display bl_header s)))
                 = shown (display [St_dataframe rets] (display bl_header s)) @ es"
    using bl_try_appends by blast
  with assms(4) have tab: "St_dataframe rets
           \<in> set (shown (final_env (bl_tab lib (estimation lib data) bmk sb v s)))"
    by (simp add: bl_tab_def Let_def final_env_def display_def)
  from call blend map_of_viewdict [of v] one tab show ?thesis by blast
qed

text \<open>
  With a view of 20 percent on the first index, the stand-in's model moves that index
  from 10 to 15 percent, and the tab shows it.
\<close>

theorem black_litterman_witness:
  "black_litterman_spec stub_library \<and>
   black_litterman stub_library (estimation stub_library sample_data) quality_view_only
     = Inr [(''USA QUALITY'', 3/20), (''USA LARGE VALUE'', 1/10),
            (''USA LARGE GROWTH'', 1/10), (''USA MINIMUM VOLATILITY'', 1/10)] \<and>
   bl_posterior (ledoit_wolf stub_library sample_data 12) [(''USA QUALITY'', 1/5)]
     (mean_historical_return stub_library sample_data 12 True)
     [(''USA QUALITY'', 3/20), (''USA LARGE VALUE'', 1/10),
      (''USA LARGE GROWTH'', 1/10), (''USA MINIMUM VOLATILITY'', 1/10)] \<and>
   St_dataframe [(''USA QUALITY'', 3/20), (''USA LARGE VALUE'', 1/10),
                 (''USA LARGE GROWTH'', 1/10), (''USA MINIMUM VOLATILITY'', 1/10)]
     \<in> set (shown (final_env (bl_tab stub_library (estimation stub_library sample_data)
                 (Inr sample_benchmark) sample_sidebar quality_view_only
                 (initial_env sample_returns))))"
proof -
  let ?rets = "[(''USA QUALITY'', 3/20), (''USA LARGE VALUE'', 1/10),
                (''USA LARGE GROWTH'', 1/10), (''USA MINIMUM VOLATILITY'', 1/10)] :: (string \<times> real) list"
  have v: "viewdict quality_view_only = [(''USA QUALITY'', 1/5)]"
    by (simp add: viewdict_def view_entry_def quality_view_only_def no_views_def)
  have r: "black_litterman stub_library (estimation stub_library sample_data) quality_view_only
             = Inr ?rets"
    unfolding black_litterman_def v
    by (simp add: estimation_def Let_def stub_library_def sample_data_def stub_bl_returns_def
          scalar_matrix_def upt_rec)
  from black_litterman_blends_historical_mean_with_views
         [OF stub_black_litterman_spec r, of "Inr sample_benchmark" sample_sidebar
            "initial_env sample_returns"]
  have "bl_posterior (ledoit_wolf stub_library sample_data 12) [(''USA QUALITY'', 1/5)]
          (mean_historical_return stub_library sample_data 12 True) ?rets"
    and "St_dataframe ?rets
     \<in> set (shown (final_env (bl_tab stub_library (estimation stub_library sample_data)
                 (Inr sample_benchmark) sample_sidebar quality_view_only
                 (initial_env sample_returns))))"
    unfolding v by blast+
  with stub_black_litterman_spec r show ?thesis by blast
qed

text \<open>
  The claim as first stated has the prior implied by the market. With estimates in which
  the first index is expected to fall by five percent, uncorrelated assets and no view,
  the returns of the model are the estimates. No prior implied by the market blends with
  no views to these returns: with uncorrelated assets, every return of such a prior is
  at least the risk-free rate.
\<close>

theorem market_implied_prior_counterexample:
  "black_litterman stub_library falling_estimates no_views
     = Inr [(''USA QUALITY'', - 5/100), (''USA LARGE VALUE'', 8/100),
            (''USA LARGE GROWTH'', 1/10), (''USA MINIMUM VOLATILITY'', 6/100)] \<and>
   (\<nexists>pri. market_implied (cov_matrix falling_estimates) pri \<and>
           bl_posterior (cov_matrix falling_estimates) (viewdict no_views) pri
             [(''USA QUALITY'', - 5/100), (''USA LARGE VALUE'', 8/100),
              (''USA LARGE GROWTH'', 1/10), (''USA MINIMUM VOLATILITY'', 6/100)])"
proof -
  let ?mu = "[(''USA QUALITY'', - 5/100), (''USA LARGE VALUE'', 8/100),
              (''USA LARGE GROWTH'', 1/10), (''USA MINIMUM VOLATILITY'', 6/100)] :: (string \<times> real) list"
  have v: "viewdict no_views = []"
    by (simp add: viewdict_def view_entry_def no_views_def)
  have run: "black_litterman stub_library falling_estimates no_views = Inr ?mu"
    unfolding black_litterman_def v
    by (simp add: stub_library_def stub_bl_returns_def falling_estimates_def)
  have "\<not> market_implied (cov_matrix falling_estimates) ?mu"
  proof
    assume "market_implied (cov_matrix falling_estimates) ?mu"
    then have m: "market_implied (scalar_matrix 4 (4/100)) ?mu"
      by (simp add: falling_estimates_def)
    have len: "length ?mu = 4" by simp
    from market_implied_nonneg [of ?mu "4/100", unfolded len, OF m] show False by simp
  qed
  then have "\<nexists>pri. market_implied (cov_matrix falling_estimates) pri \<and>
           bl_posterior (cov_matrix falling_estimates) (viewdict no_views) pri ?mu"
    unfolding v bl_posterior_no_views by auto
  with run show ?thesis by blast
qed

text \<open>
  Claim C9. With no checkbox ticked the dictionary of views is empty. With a library
  whose model is the blend the specification describes, the returns the model then
  gives, when it gives any, are the prior, the mean historical returns of the estimation
  step, and the optimization block of the Black-Litterman tab is that of the MVO tab: it
  binds the same variables or raises the same exception.
\<close>

theorem no_views_returns_are_historical_means:
  assumes "black_litterman_spec lib" and "viewdict v = []"
    and "black_litterman lib (estimation lib data) v = Inr rets"
  shows "rets = mean_historical_return lib data 12 True \<and>
         rets = expected_returns (estimation lib data) \<and>
         bl_optimize lib rets (cov_matrix (estimation lib data)) sb s
           = mvo_optimize lib (estimation lib data) sb s \<and>
         (viewdict v = []) = (quality_view v = None \<and> value_view v = None \<and>
                               growth_view v = None \<and> minvol_view v = None)"
proof -
  from assms(3) have "bl_returns lib (cov_matrix (estimation lib data)) []
                        (Prior_vector (expected_returns (estimation lib data))) = Inr rets"
    by (simp add: black_litterman_def assms(2))
  with assms(1) have "bl_posterior (cov_matrix (estimation lib data)) []
                        (expected_returns (estimation lib data)) rets"
    by (simp add: black_litterman_spec_def)
  then have r: "rets = expected_returns (estimation lib data)"
    by (simp add: bl_posterior_no_views)
  have e: "expected_returns (estimation lib data) = mean_historical_return lib data 12 True"
    by (simp add: estimation_def Let_def)
  have d: "(viewdict v = []) = (quality_view v = None \<and> value_view v = None \<and>
                               growth_view v = None \<and> minvol_view v = None)"
    by (auto simp: viewdict_def view_entry_def split: option.splits)
  from r e have m: "rets = mean_historical_return lib data 12 True" by simp
  have o: "bl_optimize lib rets (cov_matrix (estimation lib data)) sb s
             = mvo_optimize lib (estimation lib data) sb s"
    unfolding r by (rule bl_optimize_eq)
  from m r o d show ?thesis by (intro conjI)
qed

text \<open>On the sample sheet, with the stand-in library and no view.\<close>

theorem no_views_witness:
  "black_litterman_spec stub_library \<and> viewdict no_views = [] \<and>
   black_litterman stub_library (estimation stub_library sample_data) no_views
     = Inr [(''USA QUALITY'', 1/10), (''USA LARGE VALUE'', 1/10),
            (''USA LARGE GROWTH'', 1/10), (''USA MINIMUM VOLATILITY'', 1/10)] \<and>
   mean_historical_return stub_library sample_data 12 True
     = [(''USA QUALITY'', 1/10), (''USA LARGE VALUE'', 1/10),
        (''USA LARGE GROWTH'', 1/10), (''USA MINIMUM VOLATILITY'', 1/10)] \<and>
   bl_optimize stub_library
       [(''USA QUALITY'', 1/10), (''USA LARGE VALUE'', 1/10),
        (''USA LARGE GROWTH'', 1/10), (''USA MINIMUM VOLATILITY'', 1/10)]
       (cov_matrix (estimation stub_library sample_data)) sample_sidebar (initial_env sample_returns)
     = mvo_optimize stub_library (estimation stub_library sample_data) sample_sidebar
         (initial_env sample_returns)"
proof -
  let ?mu = "[(''USA QUALITY'', 1/10), (''USA LARGE VALUE'', 1/10),
              (''USA LARGE GROWTH'', 1/10), (''USA MINIMUM VOLATILITY'', 1/10)] :: (string \<times> real) list"
  have v: "viewdict no_views = []"
    by (simp add: viewdict_def view_entry_def no_views_def)
  have run: "black_litterman stub_library (estimation stub_library sample_data) no_views = Inr ?mu"
    unfolding black_litterman_def v
    by (simp add: estimation_def Let_def stub_library_def sample_data_def stub_bl_returns_def)
  from no_views_returns_are_historical_means
         [OF stub_black_litterman_spec v run, of sample_sidebar "initial_env sample_returns"]
  have a: "?mu = mean_historical_return stub_library sample_data 12 True"
    and b: "bl_optimize stub_library ?mu (cov_matrix (estimation stub_library sample_data))
              sample_sidebar (initial_env sample_returns)
            = mvo_optimize stub_library (estimation stub_library sample_data) sample_sidebar
                (initial_env sample_returns)"
    by blast+
  from stub_black_litterman_spec v run a [symmetric] b show ?thesis by (intro conjI)
qed

section \<open>The reported metrics\<close>

text \<open>
  In the theorems of this section for the claims C4, C6 and C7 the state \<open>s\<close> is one
  in which the optimizer's results are bound, as they are when the analytics block is
  reached, and every ticker of the cleaned weights is a column of the returns. \<open>tb\<close> is
  either tab.

  Claim C4. The Active Risk (Tracking Error) that the analytics block reports is the
  standard deviation of the month-by-month difference between the portfolio returns (the
  asset returns dotted with the cleaned weights) and the benchmark returns, multiplied
  by the square root of twelve. The standard deviation divides by the number of months.
\<close>

theorem active_risk_is_annualized_tracking_error:
  assumes "performance s = Some perf" and "cleaned_weights s = Some cw"
    and "has_columns (returns s) cw"
    and "length b = nrows (returns s)" and "0 < nrows (returns s)"
  shows "\<exists>s'. analytics tb (Inr b) rf s = Inr s' \<and>
           St_metric ''Active Risk (Tracking Error)''
             (Some (spec_tracking_error (weighted_return (returns s) cw) (\<lambda>t. b ! t) (nrows (returns s))))
           \<in> set (shown s')"
proof -
  obtain er vol sr where perf: "perf = (er, vol, sr)" by (cases perf) auto
  note dd = mvo_drawdown_eval [OF assms(3)]
  show ?thesis
    unfolding analytics_eq
    using assms(1,2) perf
    by (simp add: mvo_analytics_success [OF _ _ dd mvo_benchmark_eval]
          active_risk_value [OF assms(4,5)] del: map_map)
qed

theorem active_risk_witness:
  "performance sample_env = Some (8/100, 15/100, 1/3) \<and>
   cleaned_weights sample_env = Some sample_weights \<and>
   has_columns (returns sample_env) sample_weights \<and>
   length sample_benchmark = nrows (returns sample_env) \<and>
   0 < nrows (returns sample_env) \<and>
   (\<exists>s'. analytics MVO (Inr sample_benchmark) (3/100) sample_env = Inr s' \<and>
           St_metric ''Active Risk (Tracking Error)''
             (Some (spec_tracking_error (weighted_return (returns sample_env) sample_weights)
                (\<lambda>t. sample_benchmark ! t) (nrows (returns sample_env))))
           \<in> set (shown s'))"
  using active_risk_is_annualized_tracking_error
          [of sample_env "(8/100, 15/100, 1/3)" sample_weights sample_benchmark MVO "3/100"]
  by (simp add: sample_env_def sample_returns_def sample_weights_def sample_benchmark_def
        has_columns_def)


text \<open>
  Claim C5. Let the library's performance figures be the ones the specification names,
  and a tab run its optimization block from the state \<open>s0\<close> and its plots, with the
  bounds in order. The Sharpe ratio the tab then reports is the one that
  \<^verbatim>\<open>portfolio_performance\<close> returned for the solver's weights and the sidebar's
  risk-free rate: the expected return of the weights in excess of that rate, over their
  total volatility, the square root of their variance under the covariance matrix, which
  is the volatility reported. The Sortino ratio reported is the mean monthly excess
  return times twelve, divided by the downside risk: the root of the mean square of the
  negative monthly excess returns alone, times the square root of twelve, the excess
  being over a twelfth of the risk-free rate. It is a number when some month has a
  negative excess return.
\<close>

theorem sharpe_uses_total_volatility_and_sortino_downside_risk:
  fixes tb :: tab and lib :: pypfopt and est :: estimates and sb :: sidebar
    and rets :: "(string \<times> real) list"
  defines "ef \<equiv> frontier tb est rets sb"
  assumes "performance_spec lib" and "lower_bound sb < upper_bound sb"
    and "optimize tb lib est rets sb s0 = Inr s1"
    and "plots tb lib est rets sb s1 = Inr s2"
    and "cleaned_weights s2 = Some cw"
    and "has_columns (returns s0) cw"
    and "\<exists>t<nrows (returns s0). weighted_return (returns s0) cw t - rfr sb / 12 < 0"
  shows "\<exists>w l er vol sr s3.
           solve tb lib ef sb = Inr (w, l) \<and> cw = clean_weights lib w \<and>
           portfolio_performance lib ef w (rfr sb) = Inr (er, vol, sr) \<and>
           er = portfolio_return (ef_expected_returns ef) w \<and>
           vol = sqrt (portfolio_variance (ef_cov_matrix ef) w) \<and>
           (vol \<noteq> 0 \<longrightarrow> sr = (er - rfr sb) / vol) \<and>
           analytics tb (Inr b) (rfr sb) s2 = Inr s3 \<and>
           St_metric ''Annual Volatility (Risk)'' (Some vol) \<in> set (shown s3) \<and>
           St_metric ''Sharpe Ratio'' (Some sr) \<in> set (shown s3) \<and>
           St_metric ''Sortino Ratio''
             (Some (spec_sortino (weighted_return (returns s0) cw) (rfr sb) (nrows (returns s0))))
           \<in> set (shown s3)"
proof -
  from optimize_success [OF assms(3,4)] obtain w l perf
    where sol: "solve tb lib ef sb = Inr (w, l)"
      and pp: "portfolio_performance lib ef w (rfr sb) = Inr perf"
      and s1: "s1 = s0\<lparr>optimization_label := Some l, cleaned_weights := Some (clean_weights lib w),
                       performance := Some perf\<rparr>"
    unfolding ef_def by blast
  obtain er vol sr where perf: "perf = (er, vol, sr)" by (cases perf) auto
  from plots_success [OF assms(5)] obtain es where s2: "s2 = s1\<lparr>shown := shown s1 @ es\<rparr>"
    by blast
  from assms(6) have cw: "cw = clean_weights lib w" by (simp add: s2 s1)
  have p2: "performance s2 = Some (er, vol, sr)" and c2: "cleaned_weights s2 = Some cw"
    and r2: "returns s2 = returns s0"
    by (simp_all add: s2 s1 perf cw)
  from assms(2) pp have fig: "er = portfolio_return (ef_expected_returns ef) w"
    "vol = sqrt (portfolio_variance (ef_cov_matrix ef) w)"
    "vol \<noteq> 0 \<longrightarrow> sr = (er - rfr sb) / vol"
    unfolding perf performance_spec_def by blast+
  from analytics_sortino [OF p2 c2, of "rfr sb" tb b] assms(7,8)
  obtain s3 where "analytics tb (Inr b) (rfr sb) s2 = Inr s3"
    and "St_metric ''Annual Volatility (Risk)'' (Some vol) \<in> set (shown s3)"
    and "St_metric ''Sharpe Ratio'' (Some sr) \<in> set (shown s3)"
    and "St_metric ''Sortino Ratio''
             (Some (spec_sortino (weighted_return (returns s0) cw) (rfr sb) (nrows (returns s0))))
           \<in> set (shown s3)"
    unfolding r2 by blast
  with sol cw pp [unfolded perf] fig show ?thesis by blast
qed

text \<open>
  On the sample sheet the stand-in's equal weights have a volatility of 10 percent and a
  Sharpe ratio of \<open>(0.10 - 0.03) / 0.10\<close>; their return in the second month is below
  a twelfth of the risk-free rate.
\<close>

theorem sharpe_and_sortino_witness:
  "performance_spec stub_library \<and>
   lower_bound sample_sidebar < upper_bound sample_sidebar \<and>
   optimize MVO stub_library (estimation stub_library sample_data) [] sample_sidebar
     (initial_env sample_returns) = Inr optimized_env \<and>
   plots MVO stub_library (estimation stub_library sample_data) [] sample_sidebar optimized_env
     = Inr plotted_env \<and>
   cleaned_weights plotted_env = Some equal_quarters \<and>
   has_columns (returns (initial_env sample_returns)) equal_quarters \<and>
   weighted_return (returns (initial_env sample_returns)) equal_quarters 1
     - rfr sample_sidebar / 12 < 0 \<and>
   sqrt (portfolio_variance (cov_matrix (estimation stub_library sample_data)) equal_quarters)
     = 1/10 \<and>
   (\<exists>s3. analytics MVO (Inr sample_benchmark) (rfr sample_sidebar) plotted_env = Inr s3 \<and>
      St_metric ''Annual Volatility (Risk)'' (Some (1/10)) \<in> set (shown s3) \<and>
      St_metric ''Sharpe Ratio'' (Some ((1/10 - 3/100) / (1/10))) \<in> set (shown s3) \<and>
      St_metric ''Sortino Ratio''
        (Some (spec_sortino (weighted_return (returns (initial_env sample_returns)) equal_quarters)
                 (rfr sample_sidebar) (nrows (returns (initial_env sample_returns)))))
      \<in> set (shown s3))"
proof -
  let ?s0 = "initial_env sample_returns"
  let ?ef = "frontier MVO (estimation stub_library sample_data) [] sample_sidebar"
  have b: "lower_bound sample_sidebar < upper_bound sample_sidebar"
    and r: "rfr sample_sidebar = 3/100"
    by (simp_all add: sample_sidebar_def)
  have cw: "cleaned_weights plotted_env = Some equal_quarters"
    by (simp add: plotted_env_def optimized_env_def display_def)
  have cols: "has_columns (returns ?s0) equal_quarters"
    by (simp add: initial_env_def sample_returns_def equal_quarters_def has_columns_def)
  have neg: "weighted_return (returns ?s0) equal_quarters 1 - rfr sample_sidebar / 12 < 0"
    by (simp add: initial_env_def sample_returns_def equal_quarters_def weighted_return_def
          asset_return_def r)
  then have ex: "\<exists>t<nrows (returns ?s0).
      weighted_return (returns ?s0) equal_quarters t - rfr sample_sidebar / 12 < 0"
    by (intro exI [of _ 1]) (simp add: initial_env_def sample_returns_def)
  from sharpe_uses_total_volatility_and_sortino_downside_risk
         [OF stub_performance_spec b sample_optimize sample_plots cw cols ex, of sample_benchmark]
  obtain w and l :: label and er vol sr s3 where w: "equal_quarters = clean_weights stub_library w"
    and pp: "portfolio_performance stub_library ?ef w (rfr sample_sidebar) = Inr (er, vol, sr)"
    and vol: "vol = sqrt (portfolio_variance (ef_cov_matrix ?ef) w)"
    and run: "analytics MVO (Inr sample_benchmark) (rfr sample_sidebar) plotted_env = Inr s3"
    and m: "St_metric ''Annual Volatility (Risk)'' (Some vol) \<in> set (shown s3)"
      "St_metric ''Sharpe Ratio'' (Some sr) \<in> set (shown s3)"
      "St_metric ''Sortino Ratio''
        (Some (spec_sortino (weighted_return (returns ?s0) equal_quarters)
                 (rfr sample_sidebar) (nrows (returns ?s0))))
      \<in> set (shown s3)"
    by blast
  from w have w': "w = equal_quarters" by (simp add: stub_library_def)
  from pp have fig: "er = 1/10" "vol = 1/10" "sr = 7/10"
    unfolding w' r sample_performance by simp_all
  from vol have v: "sqrt (portfolio_variance (cov_matrix (estimation stub_library sample_data))
                      equal_quarters) = 1/10"
    unfolding w' fig by simp
  have "\<exists>s3. analytics MVO (Inr sample_benchmark) (rfr sample_sidebar) plotted_env = Inr s3 \<and>
      St_metric ''Annual Volatility (Risk)'' (Some (1/10)) \<in> set (shown s3) \<and>
      St_metric ''Sharpe Ratio'' (Some ((1/10 - 3/100) / (1/10))) \<in> set (shown s3) \<and>
      St_metric ''Sortino Ratio''
        (Some (spec_sortino (weighted_return (returns ?s0) equal_quarters)
                 (rfr sample_sidebar) (nrows (returns ?s0))))
      \<in> set (shown s3)"
    using run m unfolding fig by (intro exI [of _ s3]) simp
  with stub_performance_spec b sample_optimize sample_plots cw cols neg v show ?thesis
    by (intro conjI)
qed

text \<open>
  Claim C6. The Maximum Drawdown reported is the least value over the months \<open>t\<close> of
  \<open>(C\<^sub>t - M\<^sub>t) / M\<^sub>t\<close>, where \<open>C\<^sub>t\<close> is the product of one plus the portfolio's return
  over the months up to \<open>t\<close>, \<open>M\<^sub>t\<close> the greatest \<open>C\<close> up to \<open>t\<close>, and the portfolio's
  return the asset returns dotted with the cleaned weights. It is shown whatever happens
  to the benchmark download that follows. The running maximum is taken to be non-zero:
  a month in which it is zero has no drawdown (NaN), and the script's minimum skips it.
\<close>

theorem max_drawdown_is_minimum_relative_decline:
  assumes "performance s = Some perf" and "cleaned_weights s = Some cw"
    and "has_columns (returns s) cw"
    and "0 < nrows (returns s)"
    and "\<forall>t<nrows (returns s). spec_running_max (weighted_return (returns s) cw) t \<noteq> 0"
  shows "St_metric ''Maximum Drawdown''
           (Some (spec_max_drawdown (weighted_return (returns s) cw) (nrows (returns s))))
         \<in> set (shown (final_env (analytics tb bmk rf s)))"
proof -
  note dd = mvo_drawdown_eval [OF assms(3)]
  from mvo_analytics_drawdown_shown [OF assms(1,2) dd, of bmk rf]
  show ?thesis
    unfolding analytics_eq
    by (simp add: drawdown_of_returns [OF assms(4,5)] del: map_map)
qed

text \<open>On the sample the portfolio falls by three percent from its first month's peak.\<close>

theorem max_drawdown_witness:
  "performance sample_env = Some (8/100, 15/100, 1/3) \<and>
   cleaned_weights sample_env = Some sample_weights \<and>
   has_columns (returns sample_env) sample_weights \<and>
   0 < nrows (returns sample_env) \<and>
   spec_running_max (weighted_return (returns sample_env) sample_weights) 2 = 103/100 \<and>
   St_metric ''Maximum Drawdown'' (Some (- 3/100))
     \<in> set (shown (final_env (analytics MVO (Inl IOError) (3/100) sample_env)))"
proof -
  have ret: "returns sample_env = sample_returns" and n: "nrows sample_returns = 3"
    by (simp_all add: sample_env_def sample_returns_def)
  have perf: "performance sample_env = Some (8/100, 15/100, 1/3)"
    and cw: "cleaned_weights sample_env = Some sample_weights"
    by (simp_all add: sample_env_def)
  have npos: "0 < nrows (returns sample_env)"
    by (simp add: ret n)
  have cols: "has_columns (returns sample_env) sample_weights"
    by (simp add: sample_env_def sample_returns_def sample_weights_def has_columns_def)
  have run: "\<forall>t<nrows (returns sample_env).
      spec_running_max (weighted_return (returns sample_env) sample_weights) t \<noteq> 0"
    unfolding ret n
    by (simp add: spec_running_max_def spec_cumulative_def numeral_3_eq_3 less_Suc_eq
          atMost_Suc sample_weighted_returns [unfolded One_nat_def numeral_2_eq_2])
  have val: "spec_max_drawdown (weighted_return (returns sample_env) sample_weights)
               (nrows (returns sample_env)) = - 3/100"
    unfolding ret n
    by (simp add: spec_max_drawdown_def spec_running_max_def spec_cumulative_def
          numeral_3_eq_3 lessThan_Suc atMost_Suc
          sample_weighted_returns [unfolded One_nat_def numeral_2_eq_2])
  from max_drawdown_is_minimum_relative_decline
         [OF perf cw cols npos run, of MVO "Inl IOError" "3/100"]
  have "St_metric ''Maximum Drawdown'' (Some (- 3/100))
     \<in> set (shown (final_env (analytics MVO (Inl IOError) (3/100) sample_env)))"
    unfolding val .
  moreover have "spec_running_max (weighted_return (returns sample_env) sample_weights) 2 = 103/100"
    unfolding ret
    by (simp add: spec_running_max_def spec_cumulative_def numeral_2_eq_2 atMost_Suc
          sample_weighted_returns [unfolded One_nat_def numeral_2_eq_2])
  ultimately show ?thesis using perf cw cols npos by blast
qed

text \<open>
  Claim C7 states the reported beta as the covariance of the portfolio and benchmark
  returns over the variance of the benchmark returns. The script takes the covariance
  from \<^verbatim>\<open>np.cov\<close>, which divides by the number of months minus one, and the variance
  from \<^verbatim>\<open>np.var\<close>, which divides by the number of months, so that what it reports is
  that quotient times \<open>n / (n - 1)\<close> (lemma \<open>beta_value\<close>); the alpha and the
  information ratio are as the claim states them, from the reported beta and the
  reported active risk (lemma \<open>alpha_and_information_ratio_value\<close>). For a portfolio that
  holds the first index alone and a benchmark equal to that index over the three sample
  months, both tabs report a beta of 3/2, where the covariance over the variance of a
  series with itself is 1.
\<close>

theorem beta_of_benchmark_against_itself:
  "map (weighted_return sample_returns quality_only) [0..<nrows sample_returns]
     = [2/100, -4/100, 1/100] \<and>
   St_metric ''Beta'' (Some (3/2))
     \<in> set (shown (final_env (mvo_analytics (Inr [2/100, -4/100, 1/100]) (3/100)
                       (sample_env\<lparr>cleaned_weights := Some quality_only\<rparr>)))) \<and>
   St_metric ''Beta'' (Some (3/2))
     \<in> set (shown (final_env (bl_analytics (Inr [2/100, -4/100, 1/100]) (3/100)
                       (sample_env\<lparr>cleaned_weights := Some quality_only\<rparr>)))) \<and>
   spec_beta (\<lambda>t. [2/100, -4/100, 1/100] ! t) (\<lambda>t. [2/100, -4/100, 1/100] ! t) 3 = 1"
proof -
  let ?s = "sample_env\<lparr>cleaned_weights := Some quality_only\<rparr>"
  let ?b = "[2/100, -4/100, 1/100] :: real list"
  have n: "nrows sample_returns = 3" by (simp add: sample_returns_def)
  have cols: "has_columns (returns ?s) quality_only"
    by (simp add: sample_env_def sample_returns_def quality_only_def has_columns_def)
  have perf: "performance ?s = Some (8/100, 15/100, 1/3)"
    and cw: "cleaned_weights ?s = Some quality_only"
    and ret: "returns ?s = sample_returns"
    by (simp_all add: sample_env_def)
  have beta: "odiv (np_cov ?b ?b) (np_var ?b) = Some (3/2)"
    by (simp add: odiv_def np_cov_def np_var_def series_mean_def fdiv_def power2_eq_square)
  have "St_metric ''Beta''
          (odiv (np_cov (map (weighted_return (returns ?s) quality_only) [0..<nrows (returns ?s)]) ?b)
             (np_var ?b))
     \<in> set (shown (final_env (mvo_analytics (Inr ?b) (3/100) ?s)))"
    by (simp add: mvo_analytics_success [OF perf cw mvo_drawdown_eval [OF cols] mvo_benchmark_eval]
          final_env_def del: map_map)
  then have shown: "St_metric ''Beta'' (Some (3/2))
     \<in> set (shown (final_env (mvo_analytics (Inr ?b) (3/100) ?s)))"
    unfolding ret n quality_only_returns beta .
  have spec: "spec_beta (\<lambda>t. ?b ! t) (\<lambda>t. ?b ! t) 3 = 1"
    by (simp add: spec_beta_def spec_covariance_def spec_variance_def spec_mean_def
          numeral_3_eq_3 lessThan_Suc power2_eq_square)
  show ?thesis
    using shown spec unfolding bl_analytics_eq n quality_only_returns by simp
qed

section \<open>Runs that fail\<close>

text \<open>
  Claim C8, for one run of the script. When the lower bound is not below the upper
  bound, the MVO tab shows the error message followed by the two messages of the
  handler, and nothing else; so does the Black-Litterman tab after its header and its
  table of returns. When the bounds are in order and the solver selected in a tab
  raises, that tab shows the two messages of the handler and nothing else (the
  Black-Litterman tab after its header and table). In neither case does the tab show
  weights, performance figures, a plot or a benchmark-relative metric.
\<close>

theorem failed_run_shows_messages_only:
  fixes lib :: pypfopt and data r0 :: frame and bmk1 bmk2 :: "py_error + series"
    and sb :: sidebar and v :: views
  defines "est \<equiv> estimation lib data"
    and "run \<equiv> script lib data r0 bmk1 bmk2 sb v"
  shows
   "(upper_bound sb \<le> lower_bound sb \<longrightarrow>
       fst run = St_error ''Lower bound must be less than upper bound'' # adjust_messages \<and>
       (\<forall>rets. black_litterman lib est v = Inr rets \<longrightarrow>
          shown (final_env (snd run))
            = bl_header @ St_dataframe rets
                # St_error ''Lower bound must be less than upper bound'' # adjust_messages)) \<and>
    (lower_bound sb < upper_bound sb \<longrightarrow>
       (\<forall>e. mvo_solve lib \<lparr>ef_expected_returns = expected_returns est,
                           ef_cov_matrix = cov_matrix est,
                           ef_weight_bounds = (lower_bound sb, upper_bound sb)\<rparr> sb = Inl e \<longrightarrow>
          fst run = adjust_messages) \<and>
       (\<forall>rets e. black_litterman lib est v = Inr rets \<longrightarrow>
          bl_solve lib \<lparr>ef_expected_returns = rets, ef_cov_matrix = cov_matrix est,
                        ef_weight_bounds = (lower_bound sb, upper_bound sb)\<rparr> sb = Inl e \<longrightarrow>
          shown (final_env (snd run)) = bl_header @ St_dataframe rets # adjust_messages))"
proof (intro conjI impI allI)
  assume b: "upper_bound sb \<le> lower_bound sb"
  show "fst run = St_error ''Lower bound must be less than upper bound'' # adjust_messages"
    unfolding run_def script_def Let_def
    by (simp add: mvo_tab_bounds [OF b] initial_env_def display_def)
next
  fix rets
  assume b: "upper_bound sb \<le> lower_bound sb"
    and r: "black_litterman lib est v = Inr rets"
  show "shown (final_env (snd run))
      = bl_header @ St_dataframe rets
          # St_error ''Lower bound must be less than upper bound'' # adjust_messages"
    unfolding run_def script_def Let_def est_def [symmetric]
    by (simp add: mvo_tab_bounds [OF b] initial_env_def bl_tab_def r Let_def
          bl_try_bounds [OF b] display_def final_env_def)
next
  fix e
  assume b: "lower_bound sb < upper_bound sb"
    and f: "mvo_solve lib \<lparr>ef_expected_returns = expected_returns est,
                           ef_cov_matrix = cov_matrix est,
                           ef_weight_bounds = (lower_bound sb, upper_bound sb)\<rparr> sb = Inl e"
  show "fst run = adjust_messages"
    unfolding run_def script_def Let_def est_def [symmetric]
    by (simp add: mvo_tab_solver_fails [OF b f] initial_env_def display_def)
next
  fix rets e
  assume b: "lower_bound sb < upper_bound sb"
    and r: "black_litterman lib est v = Inr rets"
    and f: "bl_solve lib \<lparr>ef_expected_returns = rets, ef_cov_matrix = cov_matrix est,
                        ef_weight_bounds = (lower_bound sb, upper_bound sb)\<rparr> sb = Inl e"
  show "shown (final_env (snd run)) = bl_header @ St_dataframe rets # adjust_messages"
    unfolding run_def script_def Let_def est_def [symmetric]
    by (simp add: bl_tab_def r Let_def bl_try_solver_fails [OF b f] display_def final_env_def)
qed

text \<open>
  Two runs with the stand-in library: one with both bounds at a quarter, one asking for
  a target return of 15 percent where every asset is expected to return 10 percent.
\<close>

theorem failed_run_witness:
  "fst (script stub_library sample_data sample_returns (Inr sample_benchmark)
          (Inr sample_benchmark) equal_bounds_sidebar no_views)
     = St_error ''Lower bound must be less than upper bound'' # adjust_messages \<and>
   shown (final_env (snd (script stub_library sample_data sample_returns (Inr sample_benchmark)
          (Inr sample_benchmark) equal_bounds_sidebar no_views)))
     = bl_header @ St_dataframe [(''USA QUALITY'', 1/10), (''USA LARGE VALUE'', 1/10),
                                 (''USA LARGE GROWTH'', 1/10), (''USA MINIMUM VOLATILITY'', 1/10)]
         # St_error ''Lower bound must be less than upper bound'' # adjust_messages \<and>
   fst (script stub_library sample_data sample_returns (Inr sample_benchmark)
          (Inr sample_benchmark) high_target_sidebar no_views)
     = adjust_messages \<and>
   shown (final_env (snd (script stub_library sample_data sample_returns (Inr sample_benchmark)
          (Inr sample_benchmark) high_target_sidebar no_views)))
     = bl_header @ St_dataframe [(''USA QUALITY'', 1/10), (''USA LARGE VALUE'', 1/10),
                                 (''USA LARGE GROWTH'', 1/10), (''USA MINIMUM VOLATILITY'', 1/10)]
         # adjust_messages"
proof -
  let ?mu = "[(''USA QUALITY'', 1/10), (''USA LARGE VALUE'', 1/10),
              (''USA LARGE GROWTH'', 1/10), (''USA MINIMUM VOLATILITY'', 1/10)] :: (string \<times> real) list"
  have mu: "expected_returns (estimation stub_library sample_data) = ?mu"
    by (simp add: estimation_def Let_def stub_library_def sample_data_def)
  have bl: "black_litterman stub_library (estimation stub_library sample_data) no_views = Inr ?mu"
    unfolding black_litterman_def mu
    by (simp add: stub_library_def stub_bl_returns_def viewdict_def view_entry_def no_views_def)
  have eqb: "upper_bound equal_bounds_sidebar \<le> lower_bound equal_bounds_sidebar"
    by (simp add: equal_bounds_sidebar_def sample_sidebar_def)
  have hib: "lower_bound high_target_sidebar < upper_bound high_target_sidebar"
    by (simp add: high_target_sidebar_def sample_sidebar_def)
  have f1: "mvo_solve stub_library
              \<lparr>ef_expected_returns = expected_returns (estimation stub_library sample_data),
                ef_cov_matrix = cov_matrix (estimation stub_library sample_data),
                ef_weight_bounds = (lower_bound high_target_sidebar, upper_bound high_target_sidebar)\<rparr>
              high_target_sidebar = Inl OptimizationError"
    unfolding mu
    by (simp add: mvo_solve_def high_target_sidebar_def sample_sidebar_def stub_library_def
          stub_efficient_return_def first_return_def)
  have f2: "bl_solve stub_library
              \<lparr>ef_expected_returns = ?mu,
                ef_cov_matrix = cov_matrix (estimation stub_library sample_data),
                ef_weight_bounds = (lower_bound high_target_sidebar, upper_bound high_target_sidebar)\<rparr>
              high_target_sidebar = Inl OptimizationError"
    by (simp add: bl_solve_def high_target_sidebar_def sample_sidebar_def stub_library_def
          stub_efficient_return_def first_return_def)
  note a = failed_run_shows_messages_only
             [of equal_bounds_sidebar stub_library sample_data sample_returns
                "Inr sample_benchmark" "Inr sample_benchmark" no_views]
  note b = failed_run_shows_messages_only
             [of high_target_sidebar stub_library sample_data sample_returns
                "Inr sample_benchmark" "Inr sample_benchmark" no_views]
  from a eqb bl b hib f1 f2 show ?thesis by blast
qed

section \<open>The two copies of the analytics\<close>

text \<open>
  Claim C10. The analytics of the Black-Litterman tab are the same function as those
  of the MVO tab: the drawdown stage, the benchmark stage and the whole block, with
  what it shows and the exception it raises, agree on every input. What the block adds
  to the page depends on the state only through the performance figures, the cleaned
  weights, the number of months and the return columns of the weights' tickers: the
  columns \<^verbatim>\<open>Portfolio\<close> and \<^verbatim>\<open>MSCI USA\<close> that an earlier block left in the returns
  do not matter.
\<close>

theorem bl_analytics_is_mvo_analytics:
  "bl_drawdown fr cw = mvo_drawdown fr cw \<and>
   bl_benchmark fr p b rf = mvo_benchmark fr p b rf \<and>
   bl_analytics bmk rf s = mvo_analytics bmk rf s \<and>
   (performance s' = performance s \<and> cleaned_weights s = Some cw \<and> cleaned_weights s' = Some cw \<and>
    nrows (returns s') = nrows (returns s) \<and>
    list_all (\<lambda>kw. map_of (columns (returns s')) (fst kw) = map_of (columns (returns s)) (fst kw)) cw
    \<longrightarrow> reported s' (bl_analytics bmk rf s') = reported s (mvo_analytics bmk rf s))"
proof -
  have same: "reported s' (bl_analytics bmk rf s') = reported s (mvo_analytics bmk rf s)"
    if "performance s' = performance s" and "cleaned_weights s = Some cw"
      and "cleaned_weights s' = Some cw" and "nrows (returns s') = nrows (returns s)"
      and "list_all (\<lambda>kw. map_of (columns (returns s')) (fst kw) = map_of (columns (returns s)) (fst kw)) cw"
    by (cases "performance s")
       (auto simp: bl_analytics_eq reported_mvo_analytics that(1,2,3)
          mvo_drawdown_cong [OF that(4,5)])
  show ?thesis
    using same by (simp add: bl_drawdown_eq bl_benchmark_eq bl_analytics_eq)
qed

text \<open>
  The Black-Litterman block run on the state the MVO block leaves behind, with the same
  weights, adds the same elements.
\<close>

theorem bl_analytics_witness:
  "reported (final_env (mvo_analytics (Inr sample_benchmark) (3/100) sample_env))
     (bl_analytics (Inr sample_benchmark) (3/100)
        (final_env (mvo_analytics (Inr sample_benchmark) (3/100) sample_env)))
   = reported sample_env (mvo_analytics (Inr sample_benchmark) (3/100) sample_env)"
proof -
  let ?s' = "final_env (mvo_analytics (Inr sample_benchmark) (3/100) sample_env)"
  have perf: "performance sample_env = Some (8/100, 15/100, 1/3)"
    and cw: "cleaned_weights sample_env = Some sample_weights"
    by (simp_all add: sample_env_def)
  have cols: "has_columns (returns sample_env) sample_weights"
    by (simp add: sample_env_def sample_returns_def sample_weights_def has_columns_def)
  note run = mvo_analytics_success [OF perf cw mvo_drawdown_eval [OF cols] mvo_benchmark_eval,
               of sample_benchmark "3/100"]
  have p: "performance ?s' = performance sample_env"
    and c: "cleaned_weights ?s' = Some sample_weights"
    and n: "nrows (returns ?s') = nrows (returns sample_env)"
    unfolding run by (simp_all add: final_env_def sample_env_def setitem_def)
  have m: "list_all (\<lambda>kw. map_of (columns (returns ?s')) (fst kw)
                          = map_of (columns (returns sample_env)) (fst kw)) sample_weights"
    unfolding run
    by (simp add: final_env_def setitem_def map_of_setitem_columns sample_weights_def)
  from bl_analytics_is_mvo_analytics
         [where cw = sample_weights and bmk = "Inr sample_benchmark" and rf = "3/100"
            and s = sample_env and s' = "?s'"] p cw c n m
  show ?thesis by blast
qed


end
